theory Spec2Isabelle
  imports Complex_Main
begin

section \<open>Data model\<close>

text \<open>
  The repository is a Go service over a relational store reached through an ORM.
  The embedding keeps the store as an explicit value that every repository
  method takes and returns.

  \<^item> Go \<open>float64\<close> is the type parameter \<open>'a\<close>: the repository only adds such
    values and compares them with zero, so every statement below holds for any
    interpretation of \<open>+\<close>, \<open>0\<close> and \<open>\<le>\<close>, IEEE doubles included.
  \<^item> Go \<open>int\<close> is \<open>int\<close>, and the one arithmetic operation the repository does on
    it, \<open>existing.Quantity++\<close>, wraps around at the 64-bit range (\<open>int64\<close> below).
  \<^item> City names are Cyrillic text in the source and are lists of Unicode code
    points; identifiers and messages that are plain ASCII are \<open>string\<close>.
\<close>

type_synonym rune = nat
type_synonym city = "rune list"

text \<open>The value a 64-bit signed integer holds after an operation whose exact result
  is \<open>n\<close>: the result modulo \<open>2^64\<close>, taken between \<open>-2^63\<close> and \<open>2^63 - 1\<close>.\<close>

definition int64 :: "int \<Rightarrow> int" where
  "int64 n = (n + 2 ^ 63) mod 2 ^ 64 - 2 ^ 63"

text \<open>
  Every \<open>fmt.Errorf\<close> of the modelled methods is one constructor. The messages of
  the source are, in order: "no items provided"; "service %d not found"; the
  \<open>ErrorMessage\<close> of an invalid quote; the error of a write the database rejected;
  the runtime panic of \<open>items[0]\<close> on an empty slice; and the Russian messages
  "service not found", "request not found", "only drafts can be formed",
  "required fields are not filled: cities and cargo parameters", "the request has
  no services", "wrong status for completion", "only formed requests can be
  completed", "request not found or is not a draft", "service not found in the
  request", "service not found in the draft request".
\<close>

datatype error =
    NoItemsProvided
  | ServiceNotFoundById int
  | QuoteInvalid string
  | DbFailure
  | IndexOutOfRange
  | ServiceNotFound
  | RequestNotFound
  | OnlyDraftsCanBeFormed
  | RequiredFieldsMissing
  | NoServicesInRequest
  | BadCompletionStatus
  | OnlyFormedCanBeCompleted
  | RequestNotFoundOrNotDraft
  | ServiceNotInRequest
  | ServiceNotInDraft

text \<open>
  Modelled from the spec: the row types \<open>TransportService\<close>, \<open>LogisticRequest\<close> and
  \<open>LogisticRequestService\<close> of package \<open>ds\<close>, whose declarations the repository
  only refers to. The fields are the ones the repository reads and writes, under
  the names it uses.
\<close>

record 'a TransportService =
  svc_ID :: int
  svc_Name :: string
  svc_Price :: 'a
  svc_DeliveryDays :: int

record 'a LogisticRequest =
  ID :: int
  SessionID :: string
  IsDraft :: bool
  FromCity :: city
  ToCity :: city
  Weight :: 'a
  Length :: 'a
  Width :: 'a
  Height :: 'a
  TotalCost :: 'a
  TotalDays :: int
  Status :: string
  CreatorID :: int
  ModeratorID :: "int option"
  FormedAt :: "nat option"
  CompletedAt :: "nat option"
  DeletedAt :: "nat option"

record LogisticRequestService =
  os_ID :: int
  LogisticRequestID :: int
  TransportServiceID :: int
  Quantity :: int
  SortOrder :: int
  Comment :: string

text \<open>The input of \<open>CreateCargoLogisticRequest\<close>, as the repository declares it, and
  the calculator's result with the six fields the callers read.\<close>

record 'a CargoLogisticRequestItem =
  it_TransportServiceID :: int
  it_FromCity :: city
  it_ToCity :: city
  it_Length :: 'a
  it_Width :: 'a
  it_Height :: 'a
  it_Weight :: 'a

record 'a DeliveryResult =
  res_DeliveryDays :: int
  res_TotalCost :: 'a
  res_Distance :: 'a
  res_Volume :: 'a
  res_IsValid :: bool
  res_ErrorMessage :: string

text \<open>
  Package \<open>calculator\<close> is imported by the repository; the methods below take its
  \<open>CalculateDelivery\<close> as the parameter \<open>calc\<close> (service, from, to, length, width,
  height, weight), so what is proved about them holds for every calculator.
\<close>

type_synonym 'a calculator =
  "'a TransportService \<Rightarrow> city \<Rightarrow> city \<Rightarrow> 'a \<Rightarrow> 'a \<Rightarrow> 'a \<Rightarrow> 'a \<Rightarrow> 'a DeliveryResult"

text \<open>Modelled from the spec: the status constants of package \<open>ds\<close> (draft, formed,
  completed, rejected), whose declarations the repository only refers to.\<close>

definition StatusDraft :: string where "StatusDraft = ''draft''"
definition StatusFormed :: string where "StatusFormed = ''formed''"
definition StatusCompleted :: string where "StatusCompleted = ''completed''"
definition StatusRejected :: string where "StatusRejected = ''rejected''"

section \<open>The store\<close>

text \<open>
  The three tables in primary-key order, the two identity sequences, and a script
  of the database's answers to the writes still to come: each \<open>Create\<close>, \<open>Save\<close>,
  \<open>Delete\<close> and \<open>Exec\<close> consumes one entry, \<open>True\<close> meaning the database rejects
  that write (a lost connection, a failed statement); an exhausted script
  accepts. Queries are answered from the tables and fail only when no row matches;
  they filter on \<open>deleted_at\<close> where the source writes that condition. \<open>r.db.DB()\<close>
  hands out the connection the repository was opened with and has no failure of
  its own here.
\<close>

record 'a DB =
  transport_services :: "'a TransportService list"
  logistic_requests :: "'a LogisticRequest list"
  logistic_request_services :: "LogisticRequestService list"
  next_request_id :: int
  next_row_id :: int
  rejected_writes :: "bool list"

definition accept_write :: "'a DB \<Rightarrow> bool \<times> 'a DB" where
  "accept_write db =
     (case rejected_writes db of
        [] \<Rightarrow> (True, db)
      | b # bs \<Rightarrow> (\<not> b, db\<lparr>rejected_writes := bs\<rparr>))"

text \<open>\<open>Create(&order)\<close>: the database assigns the next identifier.\<close>

definition create_request ::
  "'a LogisticRequest \<Rightarrow> 'a DB \<Rightarrow> (error + 'a LogisticRequest) \<times> 'a DB" where
  "create_request order db =
     (case accept_write db of
        (False, db1) \<Rightarrow> (Inl DbFailure, db1)
      | (True, db1) \<Rightarrow>
          (let order' = order\<lparr>ID := next_request_id db1\<rparr>
           in (Inr order',
               db1\<lparr>logistic_requests := logistic_requests db1 @ [order'],
                   next_request_id := next_request_id db1 + 1\<rparr>)))"

text \<open>\<open>Save(&order)\<close>: every column of the row with that primary key is
  overwritten; a row that does not exist is inserted.\<close>

definition save_request :: "'a LogisticRequest \<Rightarrow> 'a DB \<Rightarrow> (error + unit) \<times> 'a DB" where
  "save_request order db =
     (case accept_write db of
        (False, db1) \<Rightarrow> (Inl DbFailure, db1)
      | (True, db1) \<Rightarrow>
          (Inr (),
           db1\<lparr>logistic_requests :=
                 (if \<exists>r \<in> set (logistic_requests db1). ID r = ID order
                  then map (\<lambda>r. if ID r = ID order then order else r) (logistic_requests db1)
                  else logistic_requests db1 @ [order])\<rparr>))"

text \<open>The condition \<open>logistic_request_id = ? AND transport_service_id = ?\<close>.\<close>

definition has_key :: "int \<Rightarrow> int \<Rightarrow> LogisticRequestService \<Rightarrow> bool" where
  "has_key orderID serviceID os =
     (LogisticRequestID os = orderID \<and> TransportServiceID os = serviceID)"

text \<open>
  \<open>Create(&os)\<close> of a line item. The upsert of the guest path names the conflict
  target \<open>(logistic_request_id, transport_service_id)\<close>, which the database accepts
  only for a table with a unique index on that pair of columns; an insert that
  repeats a stored pair violates the index and is rejected.
\<close>

definition create_request_service ::
  "LogisticRequestService \<Rightarrow> 'a DB \<Rightarrow> (error + LogisticRequestService) \<times> 'a DB" where
  "create_request_service os db =
     (case accept_write db of
        (False, db1) \<Rightarrow> (Inl DbFailure, db1)
      | (True, db1) \<Rightarrow>
          if \<exists>r \<in> set (logistic_request_services db1).
               has_key (LogisticRequestID os) (TransportServiceID os) r
          then (Inl DbFailure, db1)
          else
            (let os' = os\<lparr>os_ID := next_row_id db1\<rparr>
             in (Inr os',
                 db1\<lparr>logistic_request_services := logistic_request_services db1 @ [os'],
                     next_row_id := next_row_id db1 + 1\<rparr>)))"

text \<open>
  \<open>db.Transaction(fn)\<close>: when \<open>fn\<close> returns an error (or panics) the tables are
  restored to what they were when the transaction began. Sequences are not
  transactional and the consumed answers stay consumed. The writes that can be
  rejected are those of \<open>fn\<close>.
\<close>

definition rollback :: "'a DB \<Rightarrow> 'a DB \<Rightarrow> 'a DB" where
  "rollback db tx =
     tx\<lparr>transport_services := transport_services db,
        logistic_requests := logistic_requests db,
        logistic_request_services := logistic_request_services db\<rparr>"

definition Transaction ::
  "('a DB \<Rightarrow> (error + 'r) \<times> 'a DB) \<Rightarrow> 'a DB \<Rightarrow> (error + 'r) \<times> 'a DB" where
  "Transaction fn db =
     (case fn db of
        (Inl e, tx) \<Rightarrow> (Inl e, rollback db tx)
      | (Inr v, tx) \<Rightarrow> (Inr v, tx))"

section \<open>Repository methods\<close>

definition GetTransportService :: "'a DB \<Rightarrow> int \<Rightarrow> error + 'a TransportService" where
  "GetTransportService db sid =
     (case find (\<lambda>s. svc_ID s = sid) (transport_services db) of
        None \<Rightarrow> Inl ServiceNotFound
      | Some s \<Rightarrow> Inr s)"

subsection \<open>CreateCargoLogisticRequest\<close>

record 'a aggregates =
  maxDays :: int
  totalCost :: 'a
  totalWeight :: 'a
  totalLength :: 'a
  totalWidth :: 'a
  totalHeight :: 'a

definition quote :: "'a calculator \<Rightarrow> 'a TransportService \<Rightarrow> 'a CargoLogisticRequestItem \<Rightarrow> 'a DeliveryResult" where
  "quote calc svc it =
     calc svc (it_FromCity it) (it_ToCity it) (it_Length it) (it_Width it) (it_Height it) (it_Weight it)"

text \<open>
  The first half of the loop body: the item's service is looked up, the
  calculator is asked for a quote, and the item fails when the service is missing
  or the quote is not valid. The lookup goes through \<open>r.db\<close> rather than \<open>tx\<close>; the
  transaction never writes the services table, so both read the same rows.
\<close>

definition resolve_and_quote ::
  "'a calculator \<Rightarrow> 'a DB \<Rightarrow> 'a CargoLogisticRequestItem \<Rightarrow> error + 'a DeliveryResult" where
  "resolve_and_quote calc db it =
     (case GetTransportService db (it_TransportServiceID it) of
        Inl _ \<Rightarrow> Inl (ServiceNotFoundById (it_TransportServiceID it))
      | Inr svc \<Rightarrow>
          (let res = quote calc svc it in
           if \<not> res_IsValid res then Inl (QuoteInvalid (res_ErrorMessage res))
           else Inr res))"

text \<open>The loop \<open>for _, it := range items\<close>, with the six running aggregates. An
  item that passes is persisted as a line item of quantity 1 before the aggregates
  are updated.\<close>

fun items_loop ::
  "('a::plus) calculator \<Rightarrow> int \<Rightarrow> 'a CargoLogisticRequestItem list \<Rightarrow> 'a aggregates \<Rightarrow> 'a DB
     \<Rightarrow> (error + 'a aggregates) \<times> 'a DB" where
  "items_loop calc orderID [] agg tx = (Inr agg, tx)"
| "items_loop calc orderID (it # its) agg tx =
     (case resolve_and_quote calc tx it of
        Inl e \<Rightarrow> (Inl e, tx)
      | Inr res \<Rightarrow>
          (case create_request_service
                  \<lparr>os_ID = 0, LogisticRequestID = orderID,
                   TransportServiceID = it_TransportServiceID it, Quantity = 1,
                   SortOrder = 0, Comment = []\<rparr> tx of
             (Inl e, tx1) \<Rightarrow> (Inl e, tx1)
           | (Inr _, tx1) \<Rightarrow>
               items_loop calc orderID its
                 \<lparr>maxDays = (if res_DeliveryDays res > maxDays agg
                             then res_DeliveryDays res else maxDays agg),
                  totalCost = totalCost agg + res_TotalCost res,
                  totalWeight = totalWeight agg + it_Weight it,
                  totalLength = totalLength agg + it_Length it,
                  totalWidth = totalWidth agg + it_Width it,
                  totalHeight = totalHeight agg + it_Height it\<rparr> tx1))"

text \<open>The transaction body: \<open>items[0]\<close> (a panic on the empty slice), the draft
  request row, the loop, and the \<open>Save\<close> of the totals.\<close>

definition createCargoLogisticRequestTx ::
  "('a::{plus,zero}) calculator \<Rightarrow> 'a DB \<Rightarrow> 'a CargoLogisticRequestItem list \<Rightarrow> int
     \<Rightarrow> (error + int) \<times> 'a DB" where
  "createCargoLogisticRequestTx calc db items creatorID =
     Transaction (\<lambda>tx.
       case items of
         [] \<Rightarrow> (Inl IndexOutOfRange, tx)
       | first # _ \<Rightarrow>
          (case create_request
                  \<lparr>ID = 0, SessionID = ''guest'', IsDraft = True,
                   FromCity = it_FromCity first, ToCity = it_ToCity first,
                   Weight = 0, Length = 0, Width = 0, Height = 0,
                   TotalCost = 0, TotalDays = 0, Status = StatusDraft,
                   CreatorID = creatorID, ModeratorID = None, FormedAt = None,
                   CompletedAt = None, DeletedAt = None\<rparr> tx of
             (Inl e, tx1) \<Rightarrow> (Inl e, tx1)
           | (Inr order, tx1) \<Rightarrow>
              (case items_loop calc (ID order) items
                      \<lparr>maxDays = 0, totalCost = 0, totalWeight = 0, totalLength = 0,
                       totalWidth = 0, totalHeight = 0\<rparr> tx1 of
                 (Inl e, tx2) \<Rightarrow> (Inl e, tx2)
               | (Inr agg, tx2) \<Rightarrow>
                  (case save_request
                          (order\<lparr>TotalDays := maxDays agg, TotalCost := totalCost agg,
                                 Weight := totalWeight agg, Length := totalLength agg,
                                 Width := totalWidth agg, Height := totalHeight agg\<rparr>) tx2 of
                     (Inl e, tx3) \<Rightarrow> (Inl e, tx3)
                   | (Inr _, tx3) \<Rightarrow> (Inr (ID order), tx3))))) db"

definition CreateCargoLogisticRequest ::
  "('a::{plus,zero}) calculator \<Rightarrow> 'a DB \<Rightarrow> 'a CargoLogisticRequestItem list \<Rightarrow> int
     \<Rightarrow> (error + int) \<times> 'a DB" where
  "CreateCargoLogisticRequest calc db items creatorID =
     (if length items = 0 then (Inl NoItemsProvided, db)
      else createCargoLogisticRequestTx calc db items creatorID)"

subsection \<open>Line items of a request\<close>

text \<open>\<open>Preload("Services")\<close>: the line items whose foreign key is the request.\<close>

definition Services :: "'a DB \<Rightarrow> int \<Rightarrow> LogisticRequestService list" where
  "Services db orderID =
     filter (\<lambda>os. LogisticRequestID os = orderID) (logistic_request_services db)"

text \<open>\<open>Preload("Services.TransportService")\<close>: the service a line item refers to,
  or the zero value of the struct when no such row exists.\<close>

definition preload_TransportService ::
  "('a::zero) DB \<Rightarrow> LogisticRequestService \<Rightarrow> 'a TransportService" where
  "preload_TransportService db os =
     (case find (\<lambda>s. svc_ID s = TransportServiceID os) (transport_services db) of
        Some s \<Rightarrow> s
      | None \<Rightarrow> \<lparr>svc_ID = 0, svc_Name = [], svc_Price = 0, svc_DeliveryDays = 0\<rparr>)"

text \<open>\<open>Save(&existing)\<close> and \<open>Delete(&orderService)\<close> address the row by its
  primary key.\<close>

definition save_request_service :: "LogisticRequestService \<Rightarrow> 'a DB \<Rightarrow> (error + unit) \<times> 'a DB" where
  "save_request_service os db =
     (case accept_write db of
        (False, db1) \<Rightarrow> (Inl DbFailure, db1)
      | (True, db1) \<Rightarrow>
          (Inr (),
           db1\<lparr>logistic_request_services :=
                 (if \<exists>r \<in> set (logistic_request_services db1). os_ID r = os_ID os
                  then map (\<lambda>r. if os_ID r = os_ID os then os else r)
                         (logistic_request_services db1)
                  else logistic_request_services db1 @ [os])\<rparr>))"

definition delete_request_service :: "LogisticRequestService \<Rightarrow> 'a DB \<Rightarrow> (error + unit) \<times> 'a DB" where
  "delete_request_service os db =
     (case accept_write db of
        (False, db1) \<Rightarrow> (Inl DbFailure, db1)
      | (True, db1) \<Rightarrow>
          (Inr (),
           db1\<lparr>logistic_request_services :=
                 filter (\<lambda>r. os_ID r \<noteq> os_ID os) (logistic_request_services db1)\<rparr>))"

text \<open>
  The three statements sent through \<open>sqlDB.Exec\<close>. The first is
  \<open>INSERT ... VALUES ($1, $2, 1) ON CONFLICT (logistic_request_id,
  transport_service_id) DO UPDATE SET quantity = quantity + 1\<close>; the other two are
  \<open>UPDATE ... SET quantity = quantity - 1 WHERE ...\<close> and \<open>DELETE ... WHERE ...\<close> on
  the same pair of columns. The column \<open>quantity\<close> holds Go's \<open>int\<close>, a 64-bit
  integer; the database does not wrap around, it fails the statement whose sum
  leaves that range.
\<close>

definition exec_upsert :: "int \<Rightarrow> int \<Rightarrow> 'a DB \<Rightarrow> (error + unit) \<times> 'a DB" where
  "exec_upsert orderID serviceID db =
     (case accept_write db of
        (False, db1) \<Rightarrow> (Inl DbFailure, db1)
      | (True, db1) \<Rightarrow>
          (if \<exists>r \<in> set (logistic_request_services db1).
                has_key orderID serviceID r \<and> Quantity r + 1 > 2 ^ 63 - 1
           then (Inl DbFailure, db1)
           else if \<exists>r \<in> set (logistic_request_services db1). has_key orderID serviceID r
           then (Inr (),
                 db1\<lparr>logistic_request_services :=
                       map (\<lambda>r. if has_key orderID serviceID r
                                 then r\<lparr>Quantity := Quantity r + 1\<rparr> else r)
                         (logistic_request_services db1)\<rparr>)
           else (Inr (),
                 db1\<lparr>logistic_request_services :=
                       logistic_request_services db1 @
                         [\<lparr>os_ID = next_row_id db1, LogisticRequestID = orderID,
                           TransportServiceID = serviceID, Quantity = 1,
                           SortOrder = 0, Comment = []\<rparr>],
                     next_row_id := next_row_id db1 + 1\<rparr>)))"

definition exec_decrement :: "int \<Rightarrow> int \<Rightarrow> 'a DB \<Rightarrow> (error + unit) \<times> 'a DB" where
  "exec_decrement orderID serviceID db =
     (case accept_write db of
        (False, db1) \<Rightarrow> (Inl DbFailure, db1)
      | (True, db1) \<Rightarrow>
          (Inr (),
           db1\<lparr>logistic_request_services :=
                 map (\<lambda>r. if has_key orderID serviceID r
                           then r\<lparr>Quantity := Quantity r - 1\<rparr> else r)
                   (logistic_request_services db1)\<rparr>))"

definition exec_delete :: "int \<Rightarrow> int \<Rightarrow> 'a DB \<Rightarrow> (error + unit) \<times> 'a DB" where
  "exec_delete orderID serviceID db =
     (case accept_write db of
        (False, db1) \<Rightarrow> (Inl DbFailure, db1)
      | (True, db1) \<Rightarrow>
          (Inr (),
           db1\<lparr>logistic_request_services :=
                 filter (\<lambda>r. \<not> has_key orderID serviceID r)
                   (logistic_request_services db1)\<rparr>))"

subsection \<open>FormLogisticRequest and CompleteLogisticRequest\<close>

text \<open>\<open>time.Now()\<close> is the parameter \<open>now\<close>. \<open>Save(&order)\<close> writes the request row;
  the preloaded line items are not modified by it.\<close>

definition FormLogisticRequest ::
  "('a::{zero,ord}) DB \<Rightarrow> int \<Rightarrow> city \<Rightarrow> city \<Rightarrow> 'a \<Rightarrow> 'a \<Rightarrow> 'a \<Rightarrow> 'a \<Rightarrow> nat
     \<Rightarrow> (error + unit) \<times> 'a DB" where
  "FormLogisticRequest db orderID fromCity toCity weight len width height now =
     (case find (\<lambda>r. ID r = orderID) (logistic_requests db) of
        None \<Rightarrow> (Inl RequestNotFound, db)
      | Some order \<Rightarrow>
          if Status order \<noteq> StatusDraft then (Inl OnlyDraftsCanBeFormed, db)
          else if fromCity = [] \<or> toCity = [] \<or> weight \<le> 0 \<or> len \<le> 0 \<or> width \<le> 0
                  \<or> height \<le> 0
          then (Inl RequiredFieldsMissing, db)
          else if length (Services db (ID order)) = 0 then (Inl NoServicesInRequest, db)
          else save_request
                 (order\<lparr>FromCity := fromCity, ToCity := toCity, Weight := weight,
                        Length := len, Width := width, Height := height,
                        Status := StatusFormed, FormedAt := Some now, IsDraft := False\<rparr>) db)"

text \<open>The loop of \<open>CompleteLogisticRequest\<close> over \<open>order.Services\<close>: every line item
  is quoted at the route and cargo of the request itself, and a quote that is not
  valid is skipped. The pair is (\<open>totalCost\<close>, \<open>maxDays\<close>).\<close>

fun complete_loop ::
  "('a::{zero,plus}) calculator \<Rightarrow> 'a DB \<Rightarrow> 'a LogisticRequest \<Rightarrow> LogisticRequestService list
     \<Rightarrow> 'a \<times> int \<Rightarrow> 'a \<times> int" where
  "complete_loop calc db order [] (cost, days) = (cost, days)"
| "complete_loop calc db order (orderService # rest) (cost, days) =
     (let res = calc (preload_TransportService db orderService) (FromCity order)
                  (ToCity order) (Length order) (Width order) (Height order) (Weight order)
      in if res_IsValid res
         then complete_loop calc db order rest
                (cost + res_TotalCost res,
                 if res_DeliveryDays res > days then res_DeliveryDays res else days)
         else complete_loop calc db order rest (cost, days))"

definition CompleteLogisticRequest ::
  "('a::{zero,plus}) calculator \<Rightarrow> 'a DB \<Rightarrow> int \<Rightarrow> string \<Rightarrow> int \<Rightarrow> nat
     \<Rightarrow> (error + unit) \<times> 'a DB" where
  "CompleteLogisticRequest calc db orderID status moderatorID now =
     (if status \<noteq> StatusCompleted \<and> status \<noteq> StatusRejected
      then (Inl BadCompletionStatus, db)
      else
        (case find (\<lambda>r. ID r = orderID) (logistic_requests db) of
           None \<Rightarrow> (Inl RequestNotFound, db)
         | Some order \<Rightarrow>
             if Status order \<noteq> StatusFormed then (Inl OnlyFormedCanBeCompleted, db)
             else
               (let order1 =
                      (if status = StatusCompleted
                       then (case complete_loop calc db order (Services db (ID order)) (0, 0) of
                               (cost, days) \<Rightarrow>
                                 order\<lparr>TotalCost := cost, TotalDays := days\<rparr>)
                       else order)
                in save_request
                     (order1\<lparr>Status := status, ModeratorID := Some moderatorID,
                             CompletedAt := Some now\<rparr>) db)))"

subsection \<open>Drafts\<close>

text \<open>The two draft queries: \<open>creator_id = ? AND status = 'draft' AND deleted_at IS
  NULL\<close> and \<open>session_id = ? AND is_draft = true AND deleted_at IS NULL\<close>.\<close>

definition is_user_draft :: "int \<Rightarrow> 'a LogisticRequest \<Rightarrow> bool" where
  "is_user_draft creatorID r =
     (CreatorID r = creatorID \<and> Status r = StatusDraft \<and> DeletedAt r = None)"

definition is_guest_draft :: "string \<Rightarrow> 'a LogisticRequest \<Rightarrow> bool" where
  "is_guest_draft sessionID r =
     (SessionID r = sessionID \<and> IsDraft r = True \<and> DeletedAt r = None)"

definition CreateDraftLogisticRequest ::
  "('a::zero) DB \<Rightarrow> int \<Rightarrow> (error + 'a LogisticRequest) \<times> 'a DB" where
  "CreateDraftLogisticRequest db creatorID =
     create_request
       \<lparr>ID = 0, SessionID = [], IsDraft = True, FromCity = [], ToCity = [],
        Weight = 0, Length = 0, Width = 0, Height = 0, TotalCost = 0, TotalDays = 0,
        Status = StatusDraft, CreatorID = creatorID, ModeratorID = None,
        FormedAt = None, CompletedAt = None, DeletedAt = None\<rparr> db"

text \<open>\<open>GetCartIcon\<close> returns the draft's identifier and \<open>len(order.Services)\<close>; a
  draft it has just created has no preloaded line items.\<close>

definition GetCartIcon :: "('a::zero) DB \<Rightarrow> int \<Rightarrow> (error + int \<times> int) \<times> 'a DB" where
  "GetCartIcon db creatorID =
     (case find (is_user_draft creatorID) (logistic_requests db) of
        Some order \<Rightarrow> (Inr (ID order, int (length (Services db (ID order)))), db)
      | None \<Rightarrow>
          (case CreateDraftLogisticRequest db creatorID of
             (Inl e, db1) \<Rightarrow> (Inl e, db1)
           | (Inr order, db1) \<Rightarrow> (Inr (ID order, 0), db1)))"

text \<open>\<open>ds.GetCreatorID()\<close>, the system creator of guest drafts, is the parameter
  \<open>systemCreatorID\<close>.\<close>

definition ensureGuestDraftLogisticRequest ::
  "int \<Rightarrow> ('a::zero) DB \<Rightarrow> string \<Rightarrow> (error + int) \<times> 'a DB" where
  "ensureGuestDraftLogisticRequest systemCreatorID db sessionID =
     (case find (is_guest_draft sessionID) (logistic_requests db) of
        Some order \<Rightarrow> (Inr (ID order), db)
      | None \<Rightarrow>
          (case create_request
                  \<lparr>ID = 0, SessionID = sessionID, IsDraft = True, FromCity = [],
                   ToCity = [], Weight = 0, Length = 0, Width = 0, Height = 0,
                   TotalCost = 0, TotalDays = 0, Status = StatusDraft,
                   CreatorID = systemCreatorID, ModeratorID = None, FormedAt = None,
                   CompletedAt = None, DeletedAt = None\<rparr> db of
             (Inl e, db1) \<Rightarrow> (Inl e, db1)
           | (Inr order, db1) \<Rightarrow> (Inr (ID order), db1)))"

subsection \<open>Adding and removing line items\<close>

definition AddServiceToLogisticRequest :: "'a DB \<Rightarrow> int \<Rightarrow> int \<Rightarrow> (error + unit) \<times> 'a DB" where
  "AddServiceToLogisticRequest db orderID serviceID =
     (case find (\<lambda>r. ID r = orderID \<and> Status r = StatusDraft) (logistic_requests db) of
        None \<Rightarrow> (Inl RequestNotFoundOrNotDraft, db)
      | Some order \<Rightarrow>
          (case GetTransportService db serviceID of
             Inl _ \<Rightarrow> (Inl ServiceNotFound, db)
           | Inr _ \<Rightarrow>
               (case find (has_key orderID serviceID) (logistic_request_services db) of
                  Some existing \<Rightarrow>
                    save_request_service
                      (existing\<lparr>Quantity := int64 (Quantity existing + 1)\<rparr>) db
                | None \<Rightarrow>
                    (case create_request_service
                            \<lparr>os_ID = 0, LogisticRequestID = orderID,
                             TransportServiceID = serviceID, Quantity = 1,
                             SortOrder = 0, Comment = []\<rparr> db of
                       (Inl e, db1) \<Rightarrow> (Inl e, db1)
                     | (Inr _, db1) \<Rightarrow> (Inr (), db1)))))"

definition RemoveServiceFromLogisticRequest :: "'a DB \<Rightarrow> int \<Rightarrow> int \<Rightarrow> (error + unit) \<times> 'a DB" where
  "RemoveServiceFromLogisticRequest db orderID serviceID =
     (case find (has_key orderID serviceID) (logistic_request_services db) of
        None \<Rightarrow> (Inl ServiceNotInRequest, db)
      | Some orderService \<Rightarrow> delete_request_service orderService db)"

text \<open>\<open>UpdateLogisticRequestService\<close> overwrites the quantity, the sort order and the
  comment of the line item of the pair.\<close>

definition UpdateLogisticRequestService ::
  "'a DB \<Rightarrow> int \<Rightarrow> int \<Rightarrow> int \<Rightarrow> int \<Rightarrow> string \<Rightarrow> (error + unit) \<times> 'a DB" where
  "UpdateLogisticRequestService db orderID serviceID quantity orderNum cmt =
     (case find (has_key orderID serviceID) (logistic_request_services db) of
        None \<Rightarrow> (Inl ServiceNotInRequest, db)
      | Some orderService \<Rightarrow>
          save_request_service
            (orderService\<lparr>Quantity := quantity, SortOrder := orderNum, Comment := cmt\<rparr>) db)"

definition AddTransportServiceToGuestDraftLogisticRequest ::
  "int \<Rightarrow> ('a::zero) DB \<Rightarrow> int \<Rightarrow> (error + unit) \<times> 'a DB" where
  "AddTransportServiceToGuestDraftLogisticRequest systemCreatorID db serviceID =
     (case GetTransportService db serviceID of
        Inl _ \<Rightarrow> (Inl ServiceNotFound, db)
      | Inr _ \<Rightarrow>
          (case ensureGuestDraftLogisticRequest systemCreatorID db ''guest'' of
             (Inl e, db1) \<Rightarrow> (Inl e, db1)
           | (Inr orderID, db1) \<Rightarrow> exec_upsert orderID serviceID db1))"

definition RemoveTransportServiceFromGuestDraftLogisticRequest ::
  "int \<Rightarrow> ('a::zero) DB \<Rightarrow> int \<Rightarrow> (error + unit) \<times> 'a DB" where
  "RemoveTransportServiceFromGuestDraftLogisticRequest systemCreatorID db serviceID =
     (case ensureGuestDraftLogisticRequest systemCreatorID db ''guest'' of
        (Inl e, db1) \<Rightarrow> (Inl e, db1)
      | (Inr orderID, db1) \<Rightarrow>
          (case find (has_key orderID serviceID) (logistic_request_services db1) of
             None \<Rightarrow> (Inl ServiceNotInDraft, db1)
           | Some row \<Rightarrow>
               if Quantity row > 1 then exec_decrement orderID serviceID db1
               else exec_delete orderID serviceID db1))"

section \<open>Distance lookup\<close>

text \<open>
  \<open>strings.TrimSpace\<close> removes leading and trailing Unicode white space;
  \<open>strings.ToLower\<close> maps every code point through \<open>unicode.ToLower\<close>, which is the
  parameter \<open>lower\<close>.
\<close>

definition is_space :: "rune \<Rightarrow> bool" where
  "is_space c =
     (c \<in> {9, 10, 11, 12, 13, 32, 133, 160, 5760, 8232, 8233, 8239, 8287, 12288}
      \<or> (8192 \<le> c \<and> c \<le> 8202))"

definition TrimSpace :: "city \<Rightarrow> city" where
  "TrimSpace s = rev (dropWhile is_space (rev (dropWhile is_space s)))"

definition ToLower :: "(rune \<Rightarrow> rune) \<Rightarrow> city \<Rightarrow> city" where
  "ToLower lower s = map lower s"

text \<open>The keys of the static table, written as code points (the names are the
  transliterations of the Russian city names of the source).\<close>

definition moskva :: city where
  "moskva = [1084, 1086, 1089, 1082, 1074, 1072]"

definition sankt_peterburg :: city where
  "sankt_peterburg = [1089, 1072, 1085, 1082, 1090, 45, 1087, 1077, 1090, 1077, 1088, 1073, 1091, 1088, 1075]"

definition spb :: city where
  "spb = [1089, 1087, 1073]"

definition ekaterinburg :: city where
  "ekaterinburg = [1077, 1082, 1072, 1090, 1077, 1088, 1080, 1085, 1073, 1091, 1088, 1075]"

definition novosibirsk :: city where
  "novosibirsk = [1085, 1086, 1074, 1086, 1089, 1080, 1073, 1080, 1088, 1089, 1082]"

definition krasnoyarsk :: city where
  "krasnoyarsk = [1082, 1088, 1072, 1089, 1085, 1086, 1103, 1088, 1089, 1082]"

definition irkutsk :: city where
  "irkutsk = [1080, 1088, 1082, 1091, 1090, 1089, 1082]"

definition vladivostok :: city where
  "vladivostok = [1074, 1083, 1072, 1076, 1080, 1074, 1086, 1089, 1090, 1086, 1082]"

definition rostov_na_donu :: city where
  "rostov_na_donu = [1088, 1086, 1089, 1090, 1086, 1074, 45, 1085, 1072, 45, 1076, 1086, 1085, 1091]"

definition sochi :: city where
  "sochi = [1089, 1086, 1095, 1080]"

definition kazan :: city where
  "kazan = [1082, 1072, 1079, 1072, 1085, 1100]"

definition nizhniy_novgorod :: city where
  "nizhniy_novgorod = [1085, 1080, 1078, 1085, 1080, 1081, 32, 1085, 1086, 1074, 1075, 1086, 1088, 1086, 1076]"

definition samara :: city where
  "samara = [1089, 1072, 1084, 1072, 1088, 1072]"

definition volgograd :: city where
  "volgograd = [1074, 1086, 1083, 1075, 1086, 1075, 1088, 1072, 1076]"

definition voronezh :: city where
  "voronezh = [1074, 1086, 1088, 1086, 1085, 1077, 1078]"

definition saratov :: city where
  "saratov = [1089, 1072, 1088, 1072, 1090, 1086, 1074]"

definition perm :: city where
  "perm = [1087, 1077, 1088, 1084, 1100]"

definition ufa :: city where
  "ufa = [1091, 1092, 1072]"

definition chelyabinsk :: city where
  "chelyabinsk = [1095, 1077, 1083, 1103, 1073, 1080, 1085, 1089, 1082]"

definition omsk :: city where
  "omsk = [1086, 1084, 1089, 1082]"

definition tyumen :: city where
  "tyumen = [1090, 1102, 1084, 1077, 1085, 1100]"

definition kaliningrad :: city where
  "kaliningrad = [1082, 1072, 1083, 1080, 1085, 1080, 1085, 1075, 1088, 1072, 1076]"

definition murmansk :: city where
  "murmansk = [1084, 1091, 1088, 1084, 1072, 1085, 1089, 1082]"

definition arkhangelsk :: city where
  "arkhangelsk = [1072, 1088, 1093, 1072, 1085, 1075, 1077, 1083, 1100, 1089, 1082]"

definition petrozavodsk :: city where
  "petrozavodsk = [1087, 1077, 1090, 1088, 1086, 1079, 1072, 1074, 1086, 1076, 1089, 1082]"

definition velikiy_novgorod :: city where
  "velikiy_novgorod = [1074, 1077, 1083, 1080, 1082, 1080, 1081, 32, 1085, 1086, 1074, 1075, 1086, 1088, 1086, 1076]"

definition tomsk :: city where
  "tomsk = [1090, 1086, 1084, 1089, 1082]"

definition barnaul :: city where
  "barnaul = [1073, 1072, 1088, 1085, 1072, 1091, 1083]"


definition distances :: "(city \<times> (city \<times> real) list) list" where
  "distances =
     [(moskva,
       [(sankt_peterburg, 635),
        (spb, 635),
        (ekaterinburg, 1416),
        (novosibirsk, 3354),
        (krasnoyarsk, 4205),
        (irkutsk, 5152),
        (vladivostok, 9100),
        (rostov_na_donu, 1070),
        (sochi, 1360),
        (kazan, 820),
        (nizhniy_novgorod, 420),
        (samara, 1050),
        (volgograd, 970),
        (voronezh, 520),
        (saratov, 850),
        (perm, 1380),
        (ufa, 1160),
        (chelyabinsk, 1510),
        (omsk, 2550),
        (tyumen, 1720)]),
      (sankt_peterburg,
       [(spb, 0),
        (moskva, 635),
        (ekaterinburg, 1780),
        (novosibirsk, 3720),
        (kaliningrad, 550),
        (murmansk, 1050),
        (arkhangelsk, 1130),
        (petrozavodsk, 320),
        (velikiy_novgorod, 180)]),
      (ekaterinburg,
       [(moskva, 1416),
        (sankt_peterburg, 1780),
        (spb, 1780),
        (novosibirsk, 1940),
        (chelyabinsk, 200),
        (perm, 360),
        (tyumen, 320),
        (ufa, 520)]),
      (novosibirsk,
       [(moskva, 3354),
        (sankt_peterburg, 3720),
        (spb, 3720),
        (ekaterinburg, 1940),
        (omsk, 650),
        (krasnoyarsk, 850),
        (tomsk, 270),
        (barnaul, 230)])]"

text \<open>The table's values are integer literals, which \<open>float64\<close> holds exactly.\<close>

definition calculateDistance :: "(rune \<Rightarrow> rune) \<Rightarrow> city \<Rightarrow> city \<Rightarrow> real" where
  "calculateDistance lower fromCity toCity =
     (let from = ToLower lower (TrimSpace fromCity);
          to = ToLower lower (TrimSpace toCity)
      in if from = to then 0
         else
           (case map_of distances from of
              Some cityDistances \<Rightarrow>
                (case map_of cityDistances to of
                   Some distance \<Rightarrow> distance
                 | None \<Rightarrow> 500)
            | None \<Rightarrow> 500))"

text \<open>\<open>unicode.ToLower\<close> on the basic Latin and Cyrillic capital letters; the city
  names of the examples contain no other capital letter.\<close>

definition lower_latin_cyrillic :: "rune \<Rightarrow> rune" where
  "lower_latin_cyrillic c =
     (if 65 \<le> c \<and> c \<le> 90 then c + 32
      else if 1040 \<le> c \<and> c \<le> 1071 then c + 32
      else if 1024 \<le> c \<and> c \<le> 1039 then c + 80
      else c)"

section \<open>The delivery calculator\<close>

text \<open>
  Modelled from the spec: \<open>CalculateDelivery\<close> of package \<open>calculator\<close>, which the
  repository and the handlers call. The quote is not valid, with a message, when the
  service reference is absent (the zero identifier of a service passed by value) or
  when a dimension or the weight is not positive. Otherwise the distance is resolved
  by \<open>calculateDistance\<close>, the cost is \<open>base_price + volume_factor * (length * width *
  height) + weight_factor * weight + distance_factor * distance\<close> and the days are
  \<open>base_days + f(weight, distance)\<close>; the coefficients and \<open>f\<close> are the tunable
  constants of the spec and are the parameter \<open>k\<close>.
\<close>

record rates =
  volume_factor :: real
  weight_factor :: real
  distance_factor :: real
  extra_days :: "real \<Rightarrow> real \<Rightarrow> int"

definition invalid_quote :: "string \<Rightarrow> real DeliveryResult" where
  "invalid_quote msg =
     \<lparr>res_DeliveryDays = 0, res_TotalCost = 0, res_Distance = 0, res_Volume = 0,
      res_IsValid = False, res_ErrorMessage = msg\<rparr>"

definition CalculateDelivery :: "(rune \<Rightarrow> rune) \<Rightarrow> rates \<Rightarrow> real calculator" where
  "CalculateDelivery lower k service fromCity toCity len width height weight =
     (if svc_ID service = 0 then invalid_quote ''transport service is not specified''
      else if len \<le> 0 \<or> width \<le> 0 \<or> height \<le> 0
      then invalid_quote ''cargo dimensions must be greater than zero''
      else if weight \<le> 0 then invalid_quote ''cargo weight must be greater than zero''
      else
        (let distance = calculateDistance lower fromCity toCity;
             volume = len * width * height
         in \<lparr>res_DeliveryDays = svc_DeliveryDays service + extra_days k weight distance,
             res_TotalCost = svc_Price service + volume_factor k * volume
                               + weight_factor k * weight + distance_factor k * distance,
             res_Distance = distance, res_Volume = volume,
             res_IsValid = True, res_ErrorMessage = []\<rparr>))"

section \<open>Example data\<close>

text \<open>
  The coefficients of the quote that handler \<open>PostDeliveryQuote\<close> computes inline
  (50 per unit of volume, 2 per unit of weight, one more day per 1000 units of
  weight), with a distance coefficient of 1.
\<close>

definition example_rates :: rates where
  "example_rates =
     \<lparr>volume_factor = 50, weight_factor = 2, distance_factor = 1,
      extra_days = (\<lambda>weight distance. \<lfloor>weight / 1000\<rfloor>)\<rparr>"

definition example_calc :: "real calculator" where
  "example_calc = CalculateDelivery lower_latin_cyrillic example_rates"

text \<open>A store with two services and no request.\<close>

definition example_db :: "real DB" where
  "example_db =
     \<lparr>transport_services =
        [\<lparr>svc_ID = 1, svc_Name = ''fura'', svc_Price = 1000, svc_DeliveryDays = 3\<rparr>,
         \<lparr>svc_ID = 2, svc_Name = ''avia'', svc_Price = 5000, svc_DeliveryDays = 1\<rparr>],
      logistic_requests = [], logistic_request_services = [],
      next_request_id = 1, next_row_id = 1, rejected_writes = []\<rparr>"

text \<open>One cubic metre of 100 kg from Moscow to Saint Petersburg by the given service.\<close>

definition example_item :: "int \<Rightarrow> real CargoLogisticRequestItem" where
  "example_item serviceID =
     \<lparr>it_TransportServiceID = serviceID, it_FromCity = moskva, it_ToCity = sankt_peterburg,
      it_Length = 1, it_Width = 1, it_Height = 1, it_Weight = 100\<rparr>"

text \<open>The example store holding one request with the given status and line items;
  the request carries the route and cargo of \<open>example_item\<close>.\<close>

definition example_request :: "string \<Rightarrow> real LogisticRequest" where
  "example_request status =
     \<lparr>ID = 1, SessionID = ''guest'', IsDraft = (status = StatusDraft),
      FromCity = moskva, ToCity = sankt_peterburg,
      Weight = 100, Length = 1, Width = 1, Height = 1,
      TotalCost = 0, TotalDays = 0, Status = status, CreatorID = 7,
      ModeratorID = None, FormedAt = None, CompletedAt = None, DeletedAt = None\<rparr>"

definition example_line :: "int \<Rightarrow> int \<Rightarrow> int \<Rightarrow> LogisticRequestService" where
  "example_line rowID serviceID quantity =
     \<lparr>os_ID = rowID, LogisticRequestID = 1, TransportServiceID = serviceID,
      Quantity = quantity, SortOrder = 0, Comment = []\<rparr>"

definition example_store :: "string \<Rightarrow> LogisticRequestService list \<Rightarrow> real DB" where
  "example_store status rows =
     example_db\<lparr>logistic_requests := [example_request status],
                logistic_request_services := rows,
                next_request_id := 2, next_row_id := 1 + int (length rows)\<rparr>"


section \<open>Specification-side notions\<close>




text \<open>The script of the database accepts every write still to come.\<close>

definition accepts_all :: "'a DB \<Rightarrow> bool" where
  "accepts_all db = (True \<notin> set (rejected_writes db))"

text \<open>What identifies a line item: its request, its service and its quantity.\<close>

definition line_key :: "LogisticRequestService \<Rightarrow> int \<times> int \<times> int" where
  "line_key os = (LogisticRequestID os, TransportServiceID os, Quantity os)"


text \<open>The entry of the static table for a pair of normalised names, if there is
  one.\<close>

definition table_entry :: "city \<Rightarrow> city \<Rightarrow> real option" where
  "table_entry a b = (case map_of distances a of Some row \<Rightarrow> map_of row b | None \<Rightarrow> None)"

section \<open>Facts about the store and the loop\<close>

lemma accept_write_tables:
  "accept_write db = (ok, db1) \<Longrightarrow>
     transport_services db1 = transport_services db \<and>
     logistic_requests db1 = logistic_requests db \<and>
     logistic_request_services db1 = logistic_request_services db \<and>
     next_request_id db1 = next_request_id db \<and> next_row_id db1 = next_row_id db"
  by (auto simp: accept_write_def split: list.splits)


lemma resolve_and_quote_cong:
  "transport_services a = transport_services b \<Longrightarrow>
     resolve_and_quote calc a it = resolve_and_quote calc b it"
  by (simp add: resolve_and_quote_def GetTransportService_def)

lemma create_request_service_Inr:
  "create_request_service os db = (Inr os', db') \<Longrightarrow>
     transport_services db' = transport_services db \<and>
     logistic_requests db' = logistic_requests db \<and>
     logistic_request_services db' = logistic_request_services db @ [os'] \<and>
     os' = os\<lparr>os_ID := next_row_id db\<rparr> \<and>
     \<not> (\<exists>r \<in> set (logistic_request_services db).
          has_key (LogisticRequestID os) (TransportServiceID os) r)"
  by (auto simp: create_request_service_def Let_def dest!: accept_write_tables
      split: prod.splits bool.splits if_splits)





lemma items_loop_success:
  "items_loop calc oid its agg tx = (Inr agg', tx') \<Longrightarrow>
     (\<exists>qs. map (resolve_and_quote calc tx) its = map Inr qs \<and>
        maxDays agg' = foldl max (maxDays agg) (map res_DeliveryDays qs) \<and>
        totalCost agg' = foldl (+) (totalCost agg) (map res_TotalCost qs)) \<and>
     totalWeight agg' = foldl (+) (totalWeight agg) (map it_Weight its) \<and>
     totalLength agg' = foldl (+) (totalLength agg) (map it_Length its) \<and>
     totalWidth agg' = foldl (+) (totalWidth agg) (map it_Width its) \<and>
     totalHeight agg' = foldl (+) (totalHeight agg) (map it_Height its) \<and>
     transport_services tx' = transport_services tx \<and>
     logistic_requests tx' = logistic_requests tx \<and>
     (\<exists>new. logistic_request_services tx' = logistic_request_services tx @ new \<and>
        map line_key new = map (\<lambda>it. (oid, it_TransportServiceID it, 1)) its)"
proof (induction its arbitrary: agg tx)
  case Nil
  then show ?case by simp
next
  case (Cons it its)
  from Cons.prems obtain res os' tx1 where
    rq: "resolve_and_quote calc tx it = Inr res" and
    cr: "create_request_service \<lparr>os_ID = 0, LogisticRequestID = oid,
                   TransportServiceID = it_TransportServiceID it, Quantity = 1,
                   SortOrder = 0, Comment = []\<rparr> tx = (Inr os', tx1)" and
    rest: "items_loop calc oid its
                 \<lparr>maxDays = (if res_DeliveryDays res > maxDays agg
                             then res_DeliveryDays res else maxDays agg),
                  totalCost = totalCost agg + res_TotalCost res,
                  totalWeight = totalWeight agg + it_Weight it,
                  totalLength = totalLength agg + it_Length it,
                  totalWidth = totalWidth agg + it_Width it,
                  totalHeight = totalHeight agg + it_Height it\<rparr> tx1 = (Inr agg', tx')"
    by (auto split: sum.splits prod.splits)
  note c = create_request_service_Inr [OF cr]
  note ih = Cons.IH [OF rest]
  have same: "\<And>x. resolve_and_quote calc tx1 x = resolve_and_quote calc tx x"
    using c by (intro resolve_and_quote_cong) simp
  have mx: "(if res_DeliveryDays res > maxDays agg then res_DeliveryDays res else maxDays agg)
      = max (maxDays agg) (res_DeliveryDays res)"
    by (simp add: max_def)
  from ih obtain qs where qs: "map (resolve_and_quote calc tx) its = map Inr qs"
      "maxDays agg' = foldl max (max (maxDays agg) (res_DeliveryDays res)) (map res_DeliveryDays qs)"
      "totalCost agg' = foldl (+) (totalCost agg + res_TotalCost res) (map res_TotalCost qs)"
    unfolding mx by (auto simp: same)
  from ih obtain new where new: "logistic_request_services tx' = logistic_request_services tx1 @ new"
      "map line_key new = map (\<lambda>it. (oid, it_TransportServiceID it, 1)) its"
    by auto
  have q1: "map (resolve_and_quote calc tx) (it # its) = map Inr (res # qs)"
    using rq qs by simp
  have q2: "maxDays agg' = foldl max (maxDays agg) (map res_DeliveryDays (res # qs))"
    using qs by simp
  have q3: "totalCost agg' = foldl (+) (totalCost agg) (map res_TotalCost (res # qs))"
    using qs by simp
  have l1: "logistic_request_services tx' = logistic_request_services tx @ (os' # new)"
    using new c by simp
  have l2: "map line_key (os' # new) = map (\<lambda>it. (oid, it_TransportServiceID it, 1)) (it # its)"
    using new c by (simp add: line_key_def)
  have w: "totalWeight agg' = foldl (+) (totalWeight agg) (map it_Weight (it # its))"
    using ih by simp
  have l: "totalLength agg' = foldl (+) (totalLength agg) (map it_Length (it # its))"
    using ih by simp
  have wd: "totalWidth agg' = foldl (+) (totalWidth agg) (map it_Width (it # its))"
    using ih by simp
  have h: "totalHeight agg' = foldl (+) (totalHeight agg) (map it_Height (it # its))"
    using ih by simp
  have t: "transport_services tx' = transport_services tx"
      "logistic_requests tx' = logistic_requests tx"
    using ih c by simp_all
  from q1 q2 q3 have "\<exists>qs. map (resolve_and_quote calc tx) (it # its) = map Inr qs \<and>
        maxDays agg' = foldl max (maxDays agg) (map res_DeliveryDays qs) \<and>
        totalCost agg' = foldl (+) (totalCost agg) (map res_TotalCost qs)"
    by blast
  moreover from l1 l2 have "\<exists>new. logistic_request_services tx' = logistic_request_services tx @ new \<and>
        map line_key new = map (\<lambda>it. (oid, it_TransportServiceID it, 1)) (it # its)"
    by blast
  ultimately show ?case using w l wd h t by blast
qed



lemma find_replace:
  "\<exists>r \<in> set xs. P r \<Longrightarrow> P y \<Longrightarrow> find P (map (\<lambda>r. if P r then y else r) xs) = Some y"
  by (induction xs) auto

lemma find_append_new:
  "\<not> (\<exists>r \<in> set xs. P r) \<Longrightarrow> P y \<Longrightarrow> find P (xs @ [y]) = Some y"
  by (induction xs) auto

lemma save_request_Inr:
  "save_request order db = (Inr u, db') \<Longrightarrow>
     find (\<lambda>r. ID r = ID order) (logistic_requests db') = Some order \<and>
     transport_services db' = transport_services db \<and>
     logistic_request_services db' = logistic_request_services db"
  by (auto simp: save_request_def find_replace find_append_new
       dest!: accept_write_tables split: prod.splits bool.splits)


lemma create_request_Inr:
  "create_request order db = (Inr order', db') \<Longrightarrow>
     order' = order\<lparr>ID := next_request_id db\<rparr> \<and>
     transport_services db' = transport_services db \<and>
     logistic_requests db' = logistic_requests db @ [order'] \<and>
     logistic_request_services db' = logistic_request_services db"
  by (auto simp: create_request_def Let_def dest!: accept_write_tables split: prod.splits bool.splits)

lemma create_request_accepts:
  "accepts_all db \<Longrightarrow> create_request order db = (r, db') \<Longrightarrow> accepts_all db' \<and> (\<exists>order'. r = Inr order')"
  by (auto simp: create_request_def Let_def accepts_all_def accept_write_def split: prod.splits bool.splits list.splits)

lemma foldl_max_Max: "foldl max (a::int) ds = Max (set (a # ds))"
proof -
  have "foldl max a ds = fold max ds a"
    by (simp add: foldl_conv_fold max.commute)
  then show ?thesis unfolding Max.set_eq_fold .
qed

text \<open>Where addition is associative with unit 0 (not so for \<open>float64\<close>), the
  left-to-right additions of the loops are the sum of the list.\<close>

lemma foldl_plus_sum_list: "foldl (+) (a::'a::monoid_add) xs = a + sum_list xs"
  by (induction xs arbitrary: a) (simp_all add: add.assoc)

text \<open>What a successful run of the transaction body did.\<close>

lemma createCargoLogisticRequestTx_success:
  assumes "createCargoLogisticRequestTx calc db items creatorID = (Inr rid, db')"
  shows "\<exists>order qs new.
      find (\<lambda>r. ID r = rid) (logistic_requests db') = Some order \<and>
      ID order = rid \<and> Status order = StatusDraft \<and> CreatorID order = creatorID \<and>
      map (resolve_and_quote calc db) items = map Inr qs \<and>
      TotalCost order = foldl (+) 0 (map res_TotalCost qs) \<and>
      TotalDays order = foldl max 0 (map res_DeliveryDays qs) \<and>
      Weight order = foldl (+) 0 (map it_Weight items) \<and>
      Length order = foldl (+) 0 (map it_Length items) \<and>
      Width order = foldl (+) 0 (map it_Width items) \<and>
      Height order = foldl (+) 0 (map it_Height items) \<and>
      logistic_request_services db' = logistic_request_services db @ new \<and>
      map line_key new = map (\<lambda>it. (rid, it_TransportServiceID it, 1)) items"
proof -
  from assms obtain first rest where items: "items = first # rest"
    by (cases items) (auto simp: createCargoLogisticRequestTx_def Transaction_def)
  let ?o0 = "\<lparr>ID = 0, SessionID = ''guest'', IsDraft = True,
                   FromCity = it_FromCity first, ToCity = it_ToCity first,
                   Weight = 0, Length = 0, Width = 0, Height = 0,
                   TotalCost = 0, TotalDays = 0, Status = StatusDraft,
                   CreatorID = creatorID, ModeratorID = None, FormedAt = None,
                   CompletedAt = None, DeletedAt = None\<rparr> :: 'a LogisticRequest"
  let ?a0 = "\<lparr>maxDays = 0, totalCost = 0, totalWeight = 0, totalLength = 0,
                       totalWidth = 0, totalHeight = 0\<rparr> :: 'a aggregates"
  from assms items obtain order tx1 agg tx2 u where
    cr: "create_request ?o0 db = (Inr order, tx1)" and
    lp: "items_loop calc (ID order) items ?a0 tx1 = (Inr agg, tx2)" and
    sv: "save_request (order\<lparr>TotalDays := maxDays agg, TotalCost := totalCost agg,
                                 Weight := totalWeight agg, Length := totalLength agg,
                                 Width := totalWidth agg, Height := totalHeight agg\<rparr>) tx2 = (Inr u, db')" and
    rid: "rid = ID order"
    by (auto simp: createCargoLogisticRequestTx_def Transaction_def split: prod.splits sum.splits)
  note c = create_request_Inr [OF cr]
  note l = items_loop_success [OF lp]
  note s = save_request_Inr [OF sv]
  let ?final = "order\<lparr>TotalDays := maxDays agg, TotalCost := totalCost agg,
                                 Weight := totalWeight agg, Length := totalLength agg,
                                 Width := totalWidth agg, Height := totalHeight agg\<rparr>"
  have same: "resolve_and_quote calc tx1 = resolve_and_quote calc db"
    using c by (intro ext resolve_and_quote_cong) simp
  from l obtain qs where qs: "map (resolve_and_quote calc db) items = map Inr qs"
      "maxDays agg = foldl max 0 (map res_DeliveryDays qs)"
      "totalCost agg = foldl (+) 0 (map res_TotalCost qs)"
    by (auto simp: same)
  from l obtain new where new: "logistic_request_services tx2 = logistic_request_services tx1 @ new"
      "map line_key new = map (\<lambda>it. (rid, it_TransportServiceID it, 1)) items"
    unfolding rid by auto
  have f: "find (\<lambda>r. ID r = rid) (logistic_requests db') = Some ?final"
    using s rid by simp
  have st: "ID ?final = rid" "Status ?final = StatusDraft" "CreatorID ?final = creatorID"
    using c rid by simp_all
  have t1: "TotalCost ?final = foldl (+) 0 (map res_TotalCost qs)"
      "TotalDays ?final = foldl max 0 (map res_DeliveryDays qs)"
    using qs by simp_all
  have t2: "Weight ?final = foldl (+) 0 (map it_Weight items)"
      "Length ?final = foldl (+) 0 (map it_Length items)"
      "Width ?final = foldl (+) 0 (map it_Width items)"
      "Height ?final = foldl (+) 0 (map it_Height items)"
    using l by simp_all
  have ln: "logistic_request_services db' = logistic_request_services db @ new"
    using s c new by simp
  show ?thesis
    using f st qs(1) t1 t2 ln new(2) by blast
qed

lemma find_Some_set: "find P xs = Some x \<Longrightarrow> x \<in> set xs \<and> P x"
  by (auto simp: find_Some_iff)

lemma create_request_Inl:
  "create_request order db = (Inl e, db') \<Longrightarrow> e = DbFailure"
  by (auto simp: create_request_def Let_def split: prod.splits bool.splits)

lemma GetCartIcon_cases:
  assumes "GetCartIcon db creatorID = (res, db')"
  shows "(\<forall>e. res = Inl e \<longrightarrow> e = DbFailure) \<and>
     (\<forall>rid n. res = Inr (rid, n) \<longrightarrow>
        (\<exists>r \<in> set (logistic_requests db'). ID r = rid \<and> is_user_draft creatorID r)) \<and>
     (\<forall>order. find (is_user_draft creatorID) (logistic_requests db) = Some order \<longrightarrow>
        res = Inr (ID order, int (length (Services db (ID order)))) \<and> db' = db) \<and>
     (find (is_user_draft creatorID) (logistic_requests db) = None \<longrightarrow>
        (accepts_all db \<longrightarrow> (\<exists>rid. res = Inr (rid, 0))) \<and>
        (\<forall>rid n. res = Inr (rid, n) \<longrightarrow> n = 0 \<and>
           (\<exists>r. logistic_requests db' = logistic_requests db @ [r] \<and> ID r = rid \<and>
                is_user_draft creatorID r)))"
proof (cases "find (is_user_draft creatorID) (logistic_requests db)")
  case (Some order)
  with assms have "res = Inr (ID order, int (length (Services db (ID order))))" "db' = db"
    by (auto simp: GetCartIcon_def)
  with Some find_Some_set [OF Some] show ?thesis by auto
next
  case None
  let ?o = "\<lparr>ID = 0, SessionID = [], IsDraft = True, FromCity = [], ToCity = [],
        Weight = 0, Length = 0, Width = 0, Height = 0, TotalCost = 0, TotalDays = 0,
        Status = StatusDraft, CreatorID = creatorID, ModeratorID = None,
        FormedAt = None, CompletedAt = None, DeletedAt = None\<rparr> :: 'a LogisticRequest"
  obtain r1 db1 where cr: "create_request ?o db = (r1, db1)" by (cases "create_request ?o db")
  show ?thesis
  proof (cases r1)
    case (Inl e)
    with cr assms None have "res = Inl e" "e = DbFailure"
      using create_request_Inl [of ?o db e db1]
      by (simp_all add: GetCartIcon_def CreateDraftLogisticRequest_def)
    moreover have "\<not> accepts_all db"
      using create_request_accepts [OF _ cr] Inl by auto
    ultimately show ?thesis using None by auto
  next
    case (Inr order)
    note c = create_request_Inr [OF cr [unfolded Inr]]
    from cr assms None Inr have r: "res = Inr (ID order, 0)" "db' = db1"
      by (simp_all add: GetCartIcon_def CreateDraftLogisticRequest_def)
    have d: "is_user_draft creatorID order"
      using c by (simp add: is_user_draft_def)
    from r c d None show ?thesis by auto
  qed
qed

lemma ensureGuest_cases:
  assumes "ensureGuestDraftLogisticRequest systemCreatorID db sessionID = (res, db')"
  shows "(\<forall>e. res = Inl e \<longrightarrow> e = DbFailure) \<and>
     (\<forall>rid. res = Inr rid \<longrightarrow>
        (\<exists>r \<in> set (logistic_requests db'). ID r = rid \<and> is_guest_draft sessionID r)) \<and>
     (\<forall>order. find (is_guest_draft sessionID) (logistic_requests db) = Some order \<longrightarrow>
        res = Inr (ID order) \<and> db' = db) \<and>
     (find (is_guest_draft sessionID) (logistic_requests db) = None \<longrightarrow>
        (accepts_all db \<longrightarrow> (\<exists>rid. res = Inr rid)) \<and>
        (\<forall>rid. res = Inr rid \<longrightarrow>
           (\<exists>r. logistic_requests db' = logistic_requests db @ [r] \<and> ID r = rid \<and>
                is_guest_draft sessionID r)))"
proof (cases "find (is_guest_draft sessionID) (logistic_requests db)")
  case (Some order)
  with assms have "res = Inr (ID order)" "db' = db"
    by (auto simp: ensureGuestDraftLogisticRequest_def)
  with Some find_Some_set [OF Some] show ?thesis by auto
next
  case None
  let ?o = "\<lparr>ID = 0, SessionID = sessionID, IsDraft = True, FromCity = [],
                   ToCity = [], Weight = 0, Length = 0, Width = 0, Height = 0,
                   TotalCost = 0, TotalDays = 0, Status = StatusDraft,
                   CreatorID = systemCreatorID, ModeratorID = None, FormedAt = None,
                   CompletedAt = None, DeletedAt = None\<rparr> :: 'a LogisticRequest"
  obtain r1 db1 where cr: "create_request ?o db = (r1, db1)" by (cases "create_request ?o db")
  show ?thesis
  proof (cases r1)
    case (Inl e)
    with cr assms None have "res = Inl e" "e = DbFailure"
      using create_request_Inl [of ?o db e db1]
      by (simp_all add: ensureGuestDraftLogisticRequest_def)
    moreover have "\<not> accepts_all db"
      using create_request_accepts [OF _ cr] Inl by auto
    ultimately show ?thesis using None by auto
  next
    case (Inr order)
    note c = create_request_Inr [OF cr [unfolded Inr]]
    from cr assms None Inr have r: "res = Inr (ID order)" "db' = db1"
      by (simp_all add: ensureGuestDraftLogisticRequest_def)
    have d: "is_guest_draft sessionID order"
      using c by (simp add: is_guest_draft_def)
    from r c d None show ?thesis by auto
  qed
qed

lemma find_map_same_pred:
  "(\<And>x. P (f x) = P x) \<Longrightarrow> find P (map f xs) = map_option f (find P xs)"
  by (induction xs) auto

lemma find_replace_by:
  "find P xs = Some ex \<Longrightarrow> Q ex \<Longrightarrow> P y \<Longrightarrow>
     find P (map (\<lambda>r. if Q r then y else r) xs) = Some y"
  by (induction xs) (auto split: if_splits)

lemma save_request_service_Inr:
  "save_request_service os db = (Inr u, db') \<Longrightarrow>
     transport_services db' = transport_services db \<and>
     logistic_requests db' = logistic_requests db \<and>
     logistic_request_services db' =
       (if \<exists>r \<in> set (logistic_request_services db). os_ID r = os_ID os
        then map (\<lambda>r. if os_ID r = os_ID os then os else r) (logistic_request_services db)
        else logistic_request_services db @ [os])"
  by (auto simp: save_request_service_def dest!: accept_write_tables split: prod.splits bool.splits)

lemma delete_request_service_Inr:
  "delete_request_service os db = (Inr u, db') \<Longrightarrow>
     transport_services db' = transport_services db \<and>
     logistic_requests db' = logistic_requests db \<and>
     logistic_request_services db' =
       filter (\<lambda>r. os_ID r \<noteq> os_ID os) (logistic_request_services db)"
  by (auto simp: delete_request_service_def dest!: accept_write_tables split: prod.splits bool.splits)

lemma exec_upsert_Inr:
  "exec_upsert orderID serviceID db = (Inr u, db') \<Longrightarrow>
     transport_services db' = transport_services db \<and>
     logistic_requests db' = logistic_requests db \<and>
     \<not> (\<exists>r \<in> set (logistic_request_services db).
          has_key orderID serviceID r \<and> Quantity r + 1 > 2 ^ 63 - 1) \<and>
     logistic_request_services db' =
       (if \<exists>r \<in> set (logistic_request_services db). has_key orderID serviceID r
        then map (\<lambda>r. if has_key orderID serviceID r then r\<lparr>Quantity := Quantity r + 1\<rparr> else r)
               (logistic_request_services db)
        else logistic_request_services db @
               [\<lparr>os_ID = next_row_id db, LogisticRequestID = orderID,
                 TransportServiceID = serviceID, Quantity = 1, SortOrder = 0, Comment = []\<rparr>])"
  by (auto simp: exec_upsert_def dest!: accept_write_tables split: prod.splits bool.splits if_splits)

lemma exec_decrement_Inr:
  "exec_decrement orderID serviceID db = (Inr u, db') \<Longrightarrow>
     transport_services db' = transport_services db \<and>
     logistic_requests db' = logistic_requests db \<and>
     logistic_request_services db' =
       map (\<lambda>r. if has_key orderID serviceID r then r\<lparr>Quantity := Quantity r - 1\<rparr> else r)
         (logistic_request_services db)"
  by (auto simp: exec_decrement_def dest!: accept_write_tables split: prod.splits bool.splits)

lemma exec_delete_Inr:
  "exec_delete orderID serviceID db = (Inr u, db') \<Longrightarrow>
     transport_services db' = transport_services db \<and>
     logistic_requests db' = logistic_requests db \<and>
     logistic_request_services db' =
       filter (\<lambda>r. \<not> has_key orderID serviceID r) (logistic_request_services db)"
  by (auto simp: exec_delete_def dest!: accept_write_tables split: prod.splits bool.splits)

text \<open>What a successful \<open>AddServiceToLogisticRequest\<close> wrote.\<close>

lemma AddServiceToLogisticRequest_Inr:
  assumes "AddServiceToLogisticRequest db orderID serviceID = (Inr u, db')"
  shows "transport_services db' = transport_services db \<and>
     logistic_requests db' = logistic_requests db \<and>
     (case find (has_key orderID serviceID) (logistic_request_services db) of
        Some existing \<Rightarrow>
          logistic_request_services db' =
            map (\<lambda>r. if os_ID r = os_ID existing
                      then existing\<lparr>Quantity := int64 (Quantity existing + 1)\<rparr> else r)
              (logistic_request_services db)
      | None \<Rightarrow>
          logistic_request_services db' = logistic_request_services db @
            [\<lparr>os_ID = next_row_id db, LogisticRequestID = orderID,
              TransportServiceID = serviceID, Quantity = 1, SortOrder = 0, Comment = []\<rparr>])"
proof (cases "find (has_key orderID serviceID) (logistic_request_services db)")
  case None
  with assms obtain os' where
    "create_request_service \<lparr>os_ID = 0, LogisticRequestID = orderID,
         TransportServiceID = serviceID, Quantity = 1, SortOrder = 0, Comment = []\<rparr> db = (Inr os', db')"
    by (auto simp: AddServiceToLogisticRequest_def split: option.splits sum.splits prod.splits)
  from create_request_service_Inr [OF this] None show ?thesis by simp
next
  case (Some existing)
  with assms have sv: "save_request_service
      (existing\<lparr>Quantity := int64 (Quantity existing + 1)\<rparr>) db = (Inr u, db')"
    by (auto simp: AddServiceToLogisticRequest_def split: option.splits sum.splits)
  from find_Some_set [OF Some] have "\<exists>r \<in> set (logistic_request_services db). os_ID r = os_ID existing"
    by blast
  with save_request_service_Inr [OF sv] Some show ?thesis by simp
qed

text \<open>The draft that \<open>ensureGuestDraftLogisticRequest\<close> returns is the one the next
  call finds.\<close>

lemma ensureGuest_found:
  assumes "ensureGuestDraftLogisticRequest systemCreatorID db sessionID = (Inr orderID, db1)"
  shows "\<exists>order. find (is_guest_draft sessionID) (logistic_requests db1) = Some order \<and>
           ID order = orderID"
proof (cases "find (is_guest_draft sessionID) (logistic_requests db)")
  case (Some order)
  with ensureGuest_cases [OF assms] show ?thesis by auto
next
  case None
  with ensureGuest_cases [OF assms] obtain r where
    "logistic_requests db1 = logistic_requests db @ [r]" "ID r = orderID" "is_guest_draft sessionID r"
    by auto
  with None show ?thesis by (auto simp: find_append_new find_None_iff)
qed

lemma ensureGuest_tables:
  assumes "ensureGuestDraftLogisticRequest systemCreatorID db sessionID = (res, db1)"
  shows "transport_services db1 = transport_services db \<and>
         logistic_request_services db1 = logistic_request_services db \<and>
         (res = Inr orderID \<longrightarrow> next_row_id db1 = next_row_id db)"
  using assms
  by (auto simp: ensureGuestDraftLogisticRequest_def create_request_def Let_def
      dest!: accept_write_tables split: option.splits prod.splits bool.splits)

lemma ensureGuest_again:
  assumes "ensureGuestDraftLogisticRequest systemCreatorID db sessionID = (Inr orderID, db1)"
    and "logistic_requests db2 = logistic_requests db1"
  shows "ensureGuestDraftLogisticRequest systemCreatorID db2 sessionID = (Inr orderID, db2)"
  using ensureGuest_found [OF assms(1)] assms(2)
  by (auto simp: ensureGuestDraftLogisticRequest_def)

lemma AddGuest_Inr:
  assumes "AddTransportServiceToGuestDraftLogisticRequest systemCreatorID db serviceID = (Inr u, db')"
    and "ensureGuestDraftLogisticRequest systemCreatorID db ''guest'' = (Inr orderID, db1)"
  shows "logistic_requests db' = logistic_requests db1 \<and>
     \<not> (\<exists>r \<in> set (logistic_request_services db).
          has_key orderID serviceID r \<and> Quantity r + 1 > 2 ^ 63 - 1) \<and>
     logistic_request_services db' =
       (if \<exists>r \<in> set (logistic_request_services db). has_key orderID serviceID r
        then map (\<lambda>r. if has_key orderID serviceID r then r\<lparr>Quantity := Quantity r + 1\<rparr> else r)
               (logistic_request_services db)
        else logistic_request_services db @
               [\<lparr>os_ID = next_row_id db, LogisticRequestID = orderID,
                 TransportServiceID = serviceID, Quantity = 1, SortOrder = 0, Comment = []\<rparr>])"
proof -
  from assms have "exec_upsert orderID serviceID db1 = (Inr u, db')"
    by (auto simp: AddTransportServiceToGuestDraftLogisticRequest_def split: sum.splits)
  from exec_upsert_Inr [OF this] ensureGuest_tables [OF assms(2), of orderID]
  show ?thesis by simp
qed

lemma find_None_set: "find P xs = None \<Longrightarrow> \<not> (\<exists>x \<in> set xs. P x)"
  by (simp add: find_None_iff)

lemma Services_empty_no_key:
  "Services db orderID = [] \<Longrightarrow> find (has_key orderID serviceID) (logistic_request_services db) = None"
  by (auto simp: Services_def find_None_iff has_key_def filter_empty_conv)

text \<open>
  Adding is an upsert keyed on (request, service) on both paths, with every other
  line item left as it is. On the authenticated path the rows carrying the primary
  key of the line item found (one row, where primary keys are unique) are the found
  row with its quantity incremented in 64-bit arithmetic; on the guest path the
  rows of the pair (one row, under the unique index) have their quantity
  incremented by 1, which the database only does within the 64-bit range.
\<close>

lemma add_orm_upsert:
  assumes "AddServiceToLogisticRequest db orderID serviceID = (Inr u, db')"
  shows "case find (has_key orderID serviceID) (logistic_request_services db) of
         Some existing \<Rightarrow>
           logistic_request_services db' =
             map (\<lambda>r. if os_ID r = os_ID existing
                       then existing\<lparr>Quantity := int64 (Quantity existing + 1)\<rparr> else r)
               (logistic_request_services db) \<and>
           find (has_key orderID serviceID) (logistic_request_services db')
             = Some (existing\<lparr>Quantity := int64 (Quantity existing + 1)\<rparr>)
       | None \<Rightarrow>
           logistic_request_services db' = logistic_request_services db @
             [\<lparr>os_ID = next_row_id db, LogisticRequestID = orderID,
               TransportServiceID = serviceID, Quantity = 1, SortOrder = 0, Comment = []\<rparr>]"
proof (cases "find (has_key orderID serviceID) (logistic_request_services db)")
  case None
  with AddServiceToLogisticRequest_Inr [OF assms] show ?thesis by simp
next
  case (Some existing)
  from find_Some_set [OF Some]
  have k: "has_key orderID serviceID (existing\<lparr>Quantity := int64 (Quantity existing + 1)\<rparr>)"
    by (simp add: has_key_def)
  have "find (has_key orderID serviceID)
          (map (\<lambda>r. if os_ID r = os_ID existing
                      then existing\<lparr>Quantity := int64 (Quantity existing + 1)\<rparr> else r)
              (logistic_request_services db))
        = Some (existing\<lparr>Quantity := int64 (Quantity existing + 1)\<rparr>)"
    by (rule find_replace_by [OF Some _ k]) simp
  with AddServiceToLogisticRequest_Inr [OF assms] Some show ?thesis by simp
qed

text \<open>Below the top of the 64-bit range the increment is the exact one.\<close>

lemma int64_increment:
  "- (2 ^ 63) \<le> q \<Longrightarrow> q < 2 ^ 63 - 1 \<Longrightarrow> int64 (q + 1) = q + 1"
  by (simp add: int64_def)

lemma add_guest_upsert:
  assumes "ensureGuestDraftLogisticRequest systemCreatorID db ''guest'' = (Inr guestID, db1)"
    and "AddTransportServiceToGuestDraftLogisticRequest systemCreatorID db serviceID = (Inr u, db')"
  shows "case find (has_key guestID serviceID) (logistic_request_services db) of
         Some existing \<Rightarrow>
           logistic_request_services db' =
             map (\<lambda>r. if has_key guestID serviceID r then r\<lparr>Quantity := Quantity r + 1\<rparr> else r)
               (logistic_request_services db) \<and>
           find (has_key guestID serviceID) (logistic_request_services db')
             = Some (existing\<lparr>Quantity := Quantity existing + 1\<rparr>) \<and>
           Quantity existing + 1 \<le> 2 ^ 63 - 1
       | None \<Rightarrow>
           logistic_request_services db' = logistic_request_services db @
             [\<lparr>os_ID = next_row_id db, LogisticRequestID = guestID,
               TransportServiceID = serviceID, Quantity = 1, SortOrder = 0, Comment = []\<rparr>]"
proof (cases "find (has_key guestID serviceID) (logistic_request_services db)")
  case None
  with AddGuest_Inr [OF assms(2) assms(1)] find_None_set [OF None] show ?thesis
    by simp
next
  case (Some existing)
  let ?f = "\<lambda>r. if has_key guestID serviceID r then r\<lparr>Quantity := Quantity r + 1\<rparr> else r"
  have "find (has_key guestID serviceID) (map ?f (logistic_request_services db))
          = map_option ?f (find (has_key guestID serviceID) (logistic_request_services db))"
    by (rule find_map_same_pred) (simp add: has_key_def)
  with Some find_Some_set [OF Some]
  have f: "find (has_key guestID serviceID) (map ?f (logistic_request_services db))
          = Some (existing\<lparr>Quantity := Quantity existing + 1\<rparr>)"
    by simp
  from find_Some_set [OF Some]
  have ex: "\<exists>r \<in> set (logistic_request_services db). has_key guestID serviceID r" by blast
  from AddGuest_Inr [OF assms(2) assms(1)] find_Some_set [OF Some]
  have q: "Quantity existing + 1 \<le> 2 ^ 63 - 1" by force
  from f ex q AddGuest_Inr [OF assms(2) assms(1)] Some show ?thesis by simp
qed

text \<open>Adding the same service twice to a draft without line items leaves exactly one
  line item, of quantity 2 (on the authenticated path, in a store whose row sequence
  has not yet issued the identifier of a stored row).\<close>

lemma add_orm_twice:
  assumes empty: "Services db orderID = []"
    and fresh: "next_row_id db \<notin> os_ID ` set (logistic_request_services db)"
    and a1: "AddServiceToLogisticRequest db orderID serviceID = (Inr u, db1)"
    and a2: "AddServiceToLogisticRequest db1 orderID serviceID = (Inr u', db2)"
  shows "\<exists>row. Services db2 orderID = [row] \<and> line_key row = (orderID, serviceID, 2)"
proof -
  let ?new = "\<lparr>os_ID = next_row_id db, LogisticRequestID = orderID,
              TransportServiceID = serviceID, Quantity = 1, SortOrder = 0, Comment = []\<rparr>"
  let ?rows = "logistic_request_services db"
  have none: "find (has_key orderID serviceID) ?rows = None"
    by (rule Services_empty_no_key [OF empty])
  with AddServiceToLogisticRequest_Inr [OF a1]
  have l1: "logistic_request_services db1 = ?rows @ [?new]" by simp
  have f1: "find (has_key orderID serviceID) (logistic_request_services db1) = Some ?new"
    unfolding l1 using none by (simp add: find_append_new find_None_iff has_key_def)
  have old: "\<forall>r \<in> set ?rows. os_ID r \<noteq> next_row_id db" using fresh by force
  then have "\<And>y. map (\<lambda>r. if os_ID r = next_row_id db then y else r) ?rows = ?rows"
    by (intro map_idI) auto
  with AddServiceToLogisticRequest_Inr [OF a2] f1 l1
  have l2: "logistic_request_services db2 = ?rows @ [?new\<lparr>Quantity := int64 2\<rparr>]" by simp
  have "Services db2 orderID = [?new\<lparr>Quantity := 2\<rparr>]"
    using empty by (simp add: Services_def l2 int64_def)
  then show ?thesis by (simp add: line_key_def)
qed

lemma add_guest_twice:
  assumes g: "ensureGuestDraftLogisticRequest systemCreatorID db ''guest'' = (Inr guestID, db1)"
    and empty: "Services db guestID = []"
    and a1: "AddTransportServiceToGuestDraftLogisticRequest systemCreatorID db serviceID = (Inr u, db2)"
    and a2: "AddTransportServiceToGuestDraftLogisticRequest systemCreatorID db2 serviceID = (Inr u', db3)"
  shows "\<exists>row. Services db3 guestID = [row] \<and> line_key row = (guestID, serviceID, 2)"
proof -
  let ?new = "\<lparr>os_ID = next_row_id db, LogisticRequestID = guestID,
              TransportServiceID = serviceID, Quantity = 1, SortOrder = 0, Comment = []\<rparr>"
  let ?rows = "logistic_request_services db"
  let ?f = "\<lambda>r. if has_key guestID serviceID r then r\<lparr>Quantity := Quantity r + 1\<rparr> else r"
  have none: "find (has_key guestID serviceID) ?rows = None"
    by (rule Services_empty_no_key [OF empty])
  note n1 = AddGuest_Inr [OF a1 g]
  from n1 find_None_set [OF none]
  have l1: "logistic_request_services db2 = ?rows @ [?new]" by simp
  from n1 have "logistic_requests db2 = logistic_requests db1" by simp
  from ensureGuest_again [OF g this]
  have g2: "ensureGuestDraftLogisticRequest systemCreatorID db2 ''guest'' = (Inr guestID, db2)" .
  note n2 = AddGuest_Inr [OF a2 g2]
  have ex: "\<exists>r \<in> set (logistic_request_services db2). has_key guestID serviceID r"
    unfolding l1 by (simp add: has_key_def)
  have "map ?f ?rows = ?rows"
    using find_None_set [OF none] by (intro map_idI) auto
  with n2 ex l1 have l3: "logistic_request_services db3 = ?rows @ [?new\<lparr>Quantity := 2\<rparr>]"
    by (simp add: has_key_def)
  have "Services db3 guestID = [?new\<lparr>Quantity := 2\<rparr>]"
    using empty by (simp add: Services_def l3)
  then show ?thesis by (simp add: line_key_def)
qed

lemma find_filter_not: "find P (filter (\<lambda>r. \<not> P r) xs) = None"
  by (simp add: find_None_iff)

lemma remove_guest_effect:
  assumes g: "ensureGuestDraftLogisticRequest systemCreatorID db ''guest'' = (Inr guestID, db1)"
    and f: "find (has_key guestID serviceID) (logistic_request_services db) = Some row"
    and r: "RemoveTransportServiceFromGuestDraftLogisticRequest systemCreatorID db serviceID = (Inr u, db')"
  shows "(Quantity row > 1 \<longrightarrow>
            find (has_key guestID serviceID) (logistic_request_services db')
              = Some (row\<lparr>Quantity := Quantity row - 1\<rparr>) \<and>
            length (logistic_request_services db') = length (logistic_request_services db)) \<and>
         (Quantity row \<le> 1 \<longrightarrow>
            find (has_key guestID serviceID) (logistic_request_services db') = None \<and>
            filter (\<lambda>r. \<not> has_key guestID serviceID r) (logistic_request_services db')
              = filter (\<lambda>r. \<not> has_key guestID serviceID r) (logistic_request_services db))"
proof -
  note t = ensureGuest_tables [OF g, of guestID]
  let ?f = "\<lambda>r. if has_key guestID serviceID r then r\<lparr>Quantity := Quantity r - 1\<rparr> else r"
  show ?thesis
  proof (cases "Quantity row > 1")
    case True
    with g f r t have "exec_decrement guestID serviceID db1 = (Inr u, db')"
      by (simp add: RemoveTransportServiceFromGuestDraftLogisticRequest_def)
    from exec_decrement_Inr [OF this] t
    have l: "logistic_request_services db' = map ?f (logistic_request_services db)" by simp
    have "find (has_key guestID serviceID) (map ?f (logistic_request_services db))
          = map_option ?f (find (has_key guestID serviceID) (logistic_request_services db))"
      by (rule find_map_same_pred) (simp add: has_key_def)
    with f find_Some_set [OF f] l True show ?thesis by simp
  next
    case False
    with g f r t have "exec_delete guestID serviceID db1 = (Inr u, db')"
      by (simp add: RemoveTransportServiceFromGuestDraftLogisticRequest_def)
    from exec_delete_Inr [OF this] t
    have l: "logistic_request_services db' =
        filter (\<lambda>r. \<not> has_key guestID serviceID r) (logistic_request_services db)" by simp
    with False show ?thesis by (simp add: find_filter_not)
  qed
qed

lemma remove_orm_effect:
  assumes f: "find (has_key orderID serviceID) (logistic_request_services db) = Some row"
    and r: "RemoveServiceFromLogisticRequest db orderID serviceID = (Inr u, db')"
  shows "logistic_request_services db' =
           filter (\<lambda>r. os_ID r \<noteq> os_ID row) (logistic_request_services db) \<and>
         row \<notin> set (logistic_request_services db')"
proof -
  from f r have "delete_request_service row db = (Inr u, db')"
    by (simp add: RemoveServiceFromLogisticRequest_def)
  from delete_request_service_Inr [OF this] show ?thesis by simp
qed





lemma calculateDistance_default:
  "ToLower lower (TrimSpace fromCity) \<noteq> ToLower lower (TrimSpace toCity) \<Longrightarrow>
   table_entry (ToLower lower (TrimSpace fromCity)) (ToLower lower (TrimSpace toCity)) = None \<Longrightarrow>
   calculateDistance lower fromCity toCity = 500"
  by (auto simp: calculateDistance_def table_entry_def Let_def split: option.splits)

section \<open>Evaluation on the example data\<close>

lemmas city_defs = moskva_def sankt_peterburg_def spb_def ekaterinburg_def novosibirsk_def
  krasnoyarsk_def irkutsk_def vladivostok_def rostov_na_donu_def sochi_def kazan_def
  nizhniy_novgorod_def samara_def volgograd_def voronezh_def saratov_def perm_def ufa_def
  chelyabinsk_def omsk_def tyumen_def kaliningrad_def murmansk_def arkhangelsk_def
  petrozavodsk_def velikiy_novgorod_def tomsk_def barnaul_def

lemmas distance_eval = calculateDistance_def ToLower_def TrimSpace_def is_space_def
  lower_latin_cyrillic_def distances_def city_defs

lemmas store_eval = accept_write_def create_request_def save_request_def
  create_request_service_def rollback_def Transaction_def GetTransportService_def
  quote_def resolve_and_quote_def has_key_def Let_def


lemmas example_eval = example_db_def example_item_def example_calc_def CalculateDelivery_def
  invalid_quote_def example_rates_def distance_eval StatusDraft_def

lemmas example_store_eval = example_store_def example_request_def example_line_def
  example_db_def StatusDraft_def StatusFormed_def StatusCompleted_def StatusRejected_def

lemmas line_eval = save_request_service_def delete_request_service_def exec_upsert_def
  exec_decrement_def exec_delete_def has_key_def Services_def line_key_def
  is_user_draft_def is_guest_draft_def int64_def


text \<open>Where the table lists a pair in both directions, the two entries agree.\<close>

lemma mirrored_entries_agree:
  "table_entry a b = Some x \<Longrightarrow> table_entry b a = Some y \<Longrightarrow> x = y"
  unfolding table_entry_def distances_def
  by (auto simp: city_defs split: option.splits if_splits)

text \<open>\<open>calculateDistance\<close> in terms of the table's entries.\<close>

lemma calculateDistance_table:
  "calculateDistance lower a b =
     (if ToLower lower (TrimSpace a) = ToLower lower (TrimSpace b) then 0
      else case table_entry (ToLower lower (TrimSpace a)) (ToLower lower (TrimSpace b)) of
             Some d \<Rightarrow> d | None \<Rightarrow> 500)"
  by (simp add: calculateDistance_def table_entry_def Let_def split: option.splits)

section \<open>Properties\<close>

text \<open>
  C1. When \<open>CreateCargoLogisticRequest\<close> succeeds (its item list is then not empty),
  the request it has persisted under the returned identifier has \<open>TotalCost\<close> equal
  to the sum of the per-item quote costs, \<open>TotalDays\<close> equal to the maximum of the
  per-item quote days, and \<open>Weight\<close>, \<open>Length\<close>, \<open>Width\<close> and \<open>Height\<close> equal to the
  sums of the items' values. The sums are the loop's additions, in item order from
  0. The calculator is a parameter; of the day counts it returns, the statement
  uses that one of them is not negative.
\<close>

theorem C1_created_request_totals:
  assumes run: "CreateCargoLogisticRequest calc db items creatorID = (Inr rid, db')"
    and day: "\<exists>it \<in> set items. \<exists>q. resolve_and_quote calc db it = Inr q \<and> 0 \<le> res_DeliveryDays q"
  shows "\<exists>order qs.
      find (\<lambda>r. ID r = rid) (logistic_requests db') = Some order \<and>
      map (resolve_and_quote calc db) items = map Inr qs \<and>
      TotalCost order = foldl (+) 0 (map res_TotalCost qs) \<and>
      TotalDays order = Max (set (map res_DeliveryDays qs)) \<and>
      Weight order = foldl (+) 0 (map it_Weight items) \<and>
      Length order = foldl (+) 0 (map it_Length items) \<and>
      Width order = foldl (+) 0 (map it_Width items) \<and>
      Height order = foldl (+) 0 (map it_Height items)"
proof -
  from run have "createCargoLogisticRequestTx calc db items creatorID = (Inr rid, db')"
    by (simp add: CreateCargoLogisticRequest_def split: if_splits)
  from createCargoLogisticRequestTx_success [OF this] obtain order qs where
    f: "find (\<lambda>r. ID r = rid) (logistic_requests db') = Some order" and
    q: "map (resolve_and_quote calc db) items = map Inr qs" and
    c: "TotalCost order = foldl (+) 0 (map res_TotalCost qs)" and
    d: "TotalDays order = foldl max 0 (map res_DeliveryDays qs)" and
    w: "Weight order = foldl (+) 0 (map it_Weight items)"
       "Length order = foldl (+) 0 (map it_Length items)"
       "Width order = foldl (+) 0 (map it_Width items)"
       "Height order = foldl (+) 0 (map it_Height items)"
    by blast
  from day obtain it q0 where it: "it \<in> set items"
    and q0: "resolve_and_quote calc db it = Inr q0" "0 \<le> res_DeliveryDays q0"
    by blast
  from it q0(1) have "Inr q0 \<in> set (map (resolve_and_quote calc db) items)" by force
  with q have "q0 \<in> set qs" by auto
  then have m: "res_DeliveryDays q0 \<in> set (map res_DeliveryDays qs)" by simp
  then have "res_DeliveryDays q0 \<le> Max (set (map res_DeliveryDays qs))" by simp
  with q0(2) have nonneg: "0 \<le> Max (set (map res_DeliveryDays qs))" by linarith
  from \<open>q0 \<in> set qs\<close> have ne: "set (map res_DeliveryDays qs) \<noteq> {}" by auto
  have "foldl max 0 (map res_DeliveryDays qs) = Max (insert 0 (set (map res_DeliveryDays qs)))"
    by (simp add: foldl_max_Max)
  also have "\<dots> = max 0 (Max (set (map res_DeliveryDays qs)))"
    using ne by (simp add: Max_insert)
  also have "\<dots> = Max (set (map res_DeliveryDays qs))"
    using nonneg by (simp add: max_def)
  finally have d': "TotalDays order = Max (set (map res_DeliveryDays qs))"
    using d by simp
  from f q c d' w show ?thesis by blast
qed

text \<open>The theorem at two items of the example store, quoted at 1885 in 3 days and
  5885 in 1 day.\<close>

theorem C1_created_request_totals_witness:
  "CreateCargoLogisticRequest example_calc example_db [example_item 1, example_item 2] 7 =
     (Inr 1, snd (CreateCargoLogisticRequest example_calc example_db
                    [example_item 1, example_item 2] 7)) \<and>
   resolve_and_quote example_calc example_db (example_item 1) =
     Inr \<lparr>res_DeliveryDays = 3, res_TotalCost = 1885, res_Distance = 635, res_Volume = 1,
          res_IsValid = True, res_ErrorMessage = []\<rparr> \<and>
   (\<exists>order qs.
      find (\<lambda>r. ID r = 1)
        (logistic_requests (snd (CreateCargoLogisticRequest example_calc example_db
                    [example_item 1, example_item 2] 7))) = Some order \<and>
      map (resolve_and_quote example_calc example_db) [example_item 1, example_item 2] = map Inr qs \<and>
      TotalCost order = foldl (+) 0 (map res_TotalCost qs) \<and>
      TotalDays order = Max (set (map res_DeliveryDays qs)) \<and>
      Weight order = foldl (+) 0 (map it_Weight [example_item 1, example_item 2]) \<and>
      Length order = foldl (+) 0 (map it_Length [example_item 1, example_item 2]) \<and>
      Width order = foldl (+) 0 (map it_Width [example_item 1, example_item 2]) \<and>
      Height order = foldl (+) 0 (map it_Height [example_item 1, example_item 2])) \<and>
   map (\<lambda>r. (ID r, TotalCost r, TotalDays r, Weight r, Length r, Width r, Height r))
     (logistic_requests (snd (CreateCargoLogisticRequest example_calc example_db
                    [example_item 1, example_item 2] 7)))
     = [(1, 7770, 3, 200, 2, 2, 2)]"
proof -
  have "fst (CreateCargoLogisticRequest example_calc example_db [example_item 1, example_item 2] 7) = Inr 1"
    by (simp add: CreateCargoLogisticRequest_def createCargoLogisticRequestTx_def store_eval
      has_key_def example_eval)
  then have h: "CreateCargoLogisticRequest example_calc example_db [example_item 1, example_item 2] 7 =
     (Inr 1, snd (CreateCargoLogisticRequest example_calc example_db
                    [example_item 1, example_item 2] 7))"
    by (metis prod.collapse)
  have q1: "resolve_and_quote example_calc example_db (example_item 1) =
     Inr \<lparr>res_DeliveryDays = 3, res_TotalCost = 1885, res_Distance = 635, res_Volume = 1,
          res_IsValid = True, res_ErrorMessage = []\<rparr>"
    by (simp add: store_eval example_eval)
  then have day: "\<exists>it \<in> set [example_item 1, example_item 2].
      \<exists>q. resolve_and_quote example_calc example_db it = Inr q \<and> 0 \<le> res_DeliveryDays q"
    by simp
  have v: "map (\<lambda>r. (ID r, TotalCost r, TotalDays r, Weight r, Length r, Width r, Height r))
     (logistic_requests (snd (CreateCargoLogisticRequest example_calc example_db
                    [example_item 1, example_item 2] 7)))
     = [(1, 7770, 3, 200, 2, 2, 2)]"
    by (simp add: CreateCargoLogisticRequest_def createCargoLogisticRequestTx_def store_eval
      has_key_def example_eval)
  from h q1 C1_created_request_totals [OF h day] v show ?thesis by (intro conjI)
qed







text \<open>
  C4, for \<open>CalculateDelivery\<close> as modelled from the spec. Whenever the service
  reference is absent or a dimension or the weight is not positive, the quote is
  not valid and carries a non-empty message; the function is total, so nothing is
  thrown. With a service and positive cargo parameters the quote is valid whatever
  the cities are, and its distance is the one \<open>calculateDistance\<close> resolves, which for
  two different normalised names without an entry in the table is the default 500.
\<close>

theorem C4_invalid_inputs_rejected:
  "((svc_ID service = 0 \<or> len \<le> 0 \<or> width \<le> 0 \<or> height \<le> 0 \<or> weight \<le> 0) \<longrightarrow>
      \<not> res_IsValid (CalculateDelivery lower k service fromCity toCity len width height weight) \<and>
      res_ErrorMessage (CalculateDelivery lower k service fromCity toCity len width height weight)
        \<noteq> []) \<and>
   (svc_ID service \<noteq> 0 \<and> 0 < len \<and> 0 < width \<and> 0 < height \<and> 0 < weight \<longrightarrow>
      res_IsValid (CalculateDelivery lower k service fromCity toCity len width height weight) \<and>
      res_Distance (CalculateDelivery lower k service fromCity toCity len width height weight)
        = calculateDistance lower fromCity toCity) \<and>
   (ToLower lower (TrimSpace fromCity) \<noteq> ToLower lower (TrimSpace toCity) \<and>
    table_entry (ToLower lower (TrimSpace fromCity)) (ToLower lower (TrimSpace toCity)) = None \<longrightarrow>
      calculateDistance lower fromCity toCity = 500)"
  by (auto simp: CalculateDelivery_def invalid_quote_def Let_def calculateDistance_default)

text \<open>The theorem at a zero height, at the zero service, and at the unlisted pair
  Moscow, Tomsk.\<close>

theorem C4_invalid_inputs_rejected_witness:
  "\<not> res_IsValid (example_calc \<lparr>svc_ID = 1, svc_Name = ''fura'', svc_Price = 1000, svc_DeliveryDays = 3\<rparr>
        moskva tomsk 1 1 0 100) \<and>
   res_ErrorMessage (example_calc \<lparr>svc_ID = 1, svc_Name = ''fura'', svc_Price = 1000, svc_DeliveryDays = 3\<rparr>
        moskva tomsk 1 1 0 100) \<noteq> [] \<and>
   \<not> res_IsValid (example_calc \<lparr>svc_ID = 0, svc_Name = [], svc_Price = 0, svc_DeliveryDays = 0\<rparr>
        moskva tomsk 1 1 1 100) \<and>
   ToLower lower_latin_cyrillic (TrimSpace moskva) \<noteq> ToLower lower_latin_cyrillic (TrimSpace tomsk) \<and>
   table_entry (ToLower lower_latin_cyrillic (TrimSpace moskva))
     (ToLower lower_latin_cyrillic (TrimSpace tomsk)) = None \<and>
   res_IsValid (example_calc \<lparr>svc_ID = 1, svc_Name = ''fura'', svc_Price = 1000, svc_DeliveryDays = 3\<rparr>
        moskva tomsk 1 1 1 100) \<and>
   res_Distance (example_calc \<lparr>svc_ID = 1, svc_Name = ''fura'', svc_Price = 1000, svc_DeliveryDays = 3\<rparr>
        moskva tomsk 1 1 1 100) = 500"
proof -
  let ?svc = "\<lparr>svc_ID = 1, svc_Name = ''fura'', svc_Price = 1000, svc_DeliveryDays = 3\<rparr> :: real TransportService"
  let ?none = "\<lparr>svc_ID = 0, svc_Name = [], svc_Price = 0, svc_DeliveryDays = 0\<rparr> :: real TransportService"
  have ne: "ToLower lower_latin_cyrillic (TrimSpace moskva) \<noteq> ToLower lower_latin_cyrillic (TrimSpace tomsk)"
    by (simp add: distance_eval)
  have te: "table_entry (ToLower lower_latin_cyrillic (TrimSpace moskva))
     (ToLower lower_latin_cyrillic (TrimSpace tomsk)) = None"
    by (simp add: table_entry_def distance_eval)
  note t1 = C4_invalid_inputs_rejected [of ?svc 1 1 0 100 lower_latin_cyrillic example_rates moskva tomsk]
  note t2 = C4_invalid_inputs_rejected [of ?none 1 1 1 100 lower_latin_cyrillic example_rates moskva tomsk]
  note t3 = C4_invalid_inputs_rejected [of ?svc 1 1 1 100 lower_latin_cyrillic example_rates moskva tomsk]
  from t1 have r1: "\<not> res_IsValid (example_calc ?svc moskva tomsk 1 1 0 100)"
     "res_ErrorMessage (example_calc ?svc moskva tomsk 1 1 0 100) \<noteq> []"
    by (simp_all add: example_calc_def)
  from t2 have r2: "\<not> res_IsValid (example_calc ?none moskva tomsk 1 1 1 100)"
    by (simp add: example_calc_def)
  from t3 ne te have r3: "res_IsValid (example_calc ?svc moskva tomsk 1 1 1 100)"
    "res_Distance (example_calc ?svc moskva tomsk 1 1 1 100) = 500"
    by (simp_all add: example_calc_def)
  from r1 r2 ne te r3 show ?thesis by blast
qed

text \<open>
  C5 (as amended). The lookup is symmetric wherever the table lists a pair of
  normalised names in both directions, or in neither: for such cities the distance
  resolved from A to B equals the one resolved from B to A.
\<close>

theorem C5_symmetric_where_mirrored:
  "(table_entry (ToLower lower (TrimSpace a)) (ToLower lower (TrimSpace b)) = None) =
   (table_entry (ToLower lower (TrimSpace b)) (ToLower lower (TrimSpace a)) = None) \<longrightarrow>
     calculateDistance lower a b = calculateDistance lower b a"
proof
  let ?a = "ToLower lower (TrimSpace a)" and ?b = "ToLower lower (TrimSpace b)"
  assume both: "(table_entry ?a ?b = None) = (table_entry ?b ?a = None)"
  show "calculateDistance lower a b = calculateDistance lower b a"
  proof (cases "table_entry ?a ?b")
    case None
    with both have "table_entry ?b ?a = None" by simp
    with None show ?thesis by (auto simp: calculateDistance_table)
  next
    case (Some x)
    with both obtain y where y: "table_entry ?b ?a = Some y" by auto
    from mirrored_entries_agree [OF Some y] Some y show ?thesis
      by (auto simp: calculateDistance_table)
  qed
qed

text \<open>The theorem at Moscow and Yekaterinburg, listed with 1416 in both directions.\<close>

theorem C5_symmetric_where_mirrored_witness:
  "table_entry (ToLower lower_latin_cyrillic (TrimSpace moskva))
     (ToLower lower_latin_cyrillic (TrimSpace ekaterinburg)) = Some 1416 \<and>
   table_entry (ToLower lower_latin_cyrillic (TrimSpace ekaterinburg))
     (ToLower lower_latin_cyrillic (TrimSpace moskva)) = Some 1416 \<and>
   calculateDistance lower_latin_cyrillic moskva ekaterinburg
     = calculateDistance lower_latin_cyrillic ekaterinburg moskva"
proof -
  have 1: "table_entry (ToLower lower_latin_cyrillic (TrimSpace moskva))
     (ToLower lower_latin_cyrillic (TrimSpace ekaterinburg)) = Some 1416"
    by (simp add: table_entry_def distance_eval)
  have 2: "table_entry (ToLower lower_latin_cyrillic (TrimSpace ekaterinburg))
     (ToLower lower_latin_cyrillic (TrimSpace moskva)) = Some 1416"
    by (simp add: table_entry_def distance_eval)
  from C5_symmetric_where_mirrored [of lower_latin_cyrillic moskva ekaterinburg] 1 2
  show ?thesis by simp
qed

text \<open>
  C5 as stated fails on a pair the table lists in one direction only: Moscow to
  Kazan is listed with 820, and the reverse lookup, for which the table has no
  row, returns the default 500.
\<close>

theorem C5_one_way_entry_counterexample:
  "table_entry moskva kazan = Some 820 \<and>
   calculateDistance lower_latin_cyrillic moskva kazan = 820 \<and>
   calculateDistance lower_latin_cyrillic kazan moskva = 500"
  by (simp add: table_entry_def distance_eval)

text \<open>
  C6. \<open>CreateCargoLogisticRequest\<close> called with an empty item list returns the
  "no items provided" error and leaves the store exactly as it was: no row is
  created in any table.
\<close>

theorem C6_empty_items_rejected:
  "CreateCargoLogisticRequest calc db [] creatorID = (Inl NoItemsProvided, db)"
  by (simp add: CreateCargoLogisticRequest_def)

text \<open>
  C7. Adding a transport service to a draft is an upsert keyed on (request,
  service): a line item that exists for the pair has its quantity incremented by 1.
  \<open>AddServiceToLogisticRequest\<close> does not do so at the top of the 64-bit range.
  In the example store with the line item of service 2,
  \<open>UpdateLogisticRequestService\<close> sets the quantity to 9223372036854775807; the
  addition of service 2 then succeeds and leaves the line item with the quantity
  -9223372036854775808. On the guest path the same addition returns the database's
  error and leaves the line item as it was.
\<close>

theorem C7_increment_wraps_around:
  "fst (UpdateLogisticRequestService (example_store StatusDraft [example_line 1 2 1])
          1 2 9223372036854775807 0 []) = Inr () \<and>
   logistic_request_services
     (snd (UpdateLogisticRequestService (example_store StatusDraft [example_line 1 2 1])
          1 2 9223372036854775807 0 []))
     = [example_line 1 2 9223372036854775807] \<and>
   fst (AddServiceToLogisticRequest
          (snd (UpdateLogisticRequestService (example_store StatusDraft [example_line 1 2 1])
                  1 2 9223372036854775807 0 [])) 1 2) = Inr () \<and>
   logistic_request_services
     (snd (AddServiceToLogisticRequest
          (snd (UpdateLogisticRequestService (example_store StatusDraft [example_line 1 2 1])
                  1 2 9223372036854775807 0 [])) 1 2))
     = [example_line 1 2 (- 9223372036854775808)] \<and>
   fst (AddTransportServiceToGuestDraftLogisticRequest 0
          (snd (UpdateLogisticRequestService (example_store StatusDraft [example_line 1 2 1])
                  1 2 9223372036854775807 0 [])) 2) = Inl DbFailure \<and>
   logistic_request_services
     (snd (AddTransportServiceToGuestDraftLogisticRequest 0
          (snd (UpdateLogisticRequestService (example_store StatusDraft [example_line 1 2 1])
                  1 2 9223372036854775807 0 [])) 2))
     = [example_line 1 2 9223372036854775807]"
  by (simp add: UpdateLogisticRequestService_def AddServiceToLogisticRequest_def
      AddTransportServiceToGuestDraftLogisticRequest_def ensureGuestDraftLogisticRequest_def
      store_eval line_eval example_store_eval)

text \<open>
  C8 (as amended). On the guest path a successful removal of a service whose line
  item exists decrements the quantity by 1 when it is greater than 1, and deletes
  the line item otherwise, leaving the other line items alone. On the authenticated
  path \<open>RemoveServiceFromLogisticRequest\<close> deletes the line item it found, whatever
  its quantity.
\<close>

theorem C8_remove_by_path:
  "(ensureGuestDraftLogisticRequest systemCreatorID gdb ''guest'' = (Inr guestID, gdb1) \<and>
    find (has_key guestID serviceID) (logistic_request_services gdb) = Some grow \<and>
    RemoveTransportServiceFromGuestDraftLogisticRequest systemCreatorID gdb serviceID
      = (Inr (), gdb') \<longrightarrow>
      (Quantity grow > 1 \<longrightarrow>
         find (has_key guestID serviceID) (logistic_request_services gdb')
           = Some (grow\<lparr>Quantity := Quantity grow - 1\<rparr>) \<and>
         length (logistic_request_services gdb') = length (logistic_request_services gdb)) \<and>
      (Quantity grow \<le> 1 \<longrightarrow>
         find (has_key guestID serviceID) (logistic_request_services gdb') = None \<and>
         filter (\<lambda>r. \<not> has_key guestID serviceID r) (logistic_request_services gdb')
           = filter (\<lambda>r. \<not> has_key guestID serviceID r) (logistic_request_services gdb))) \<and>
   (find (has_key orderID serviceID) (logistic_request_services db) = Some row \<and>
    RemoveServiceFromLogisticRequest db orderID serviceID = (Inr (), db') \<longrightarrow>
      logistic_request_services db' =
        filter (\<lambda>r. os_ID r \<noteq> os_ID row) (logistic_request_services db) \<and>
      row \<notin> set (logistic_request_services db'))"
  using remove_guest_effect remove_orm_effect
  by (intro conjI impI; (elim conjE)?) blast+

text \<open>The theorem at a draft holding service 2 three times.\<close>

theorem C8_remove_by_path_witness:
  "ensureGuestDraftLogisticRequest 0 (example_store StatusDraft [example_line 1 2 3]) ''guest''
     = (Inr 1, example_store StatusDraft [example_line 1 2 3]) \<and>
   find (has_key 1 2) (logistic_request_services (example_store StatusDraft [example_line 1 2 3]))
     = Some (example_line 1 2 3) \<and>
   RemoveTransportServiceFromGuestDraftLogisticRequest 0
       (example_store StatusDraft [example_line 1 2 3]) 2
     = (Inr (), snd (RemoveTransportServiceFromGuestDraftLogisticRequest 0
                       (example_store StatusDraft [example_line 1 2 3]) 2)) \<and>
   Quantity (example_line 1 2 3) > 1 \<and>
   find (has_key 1 2)
     (logistic_request_services
        (snd (RemoveTransportServiceFromGuestDraftLogisticRequest 0
                (example_store StatusDraft [example_line 1 2 3]) 2)))
     = Some (example_line 1 2 2) \<and>
   RemoveServiceFromLogisticRequest (example_store StatusDraft [example_line 1 2 3]) 1 2
     = (Inr (), snd (RemoveServiceFromLogisticRequest
                       (example_store StatusDraft [example_line 1 2 3]) 1 2)) \<and>
   example_line 1 2 3 \<notin> set (logistic_request_services
       (snd (RemoveServiceFromLogisticRequest
               (example_store StatusDraft [example_line 1 2 3]) 1 2)))"
proof -
  let ?S = "example_store StatusDraft [example_line 1 2 3]"
  let ?G = "RemoveTransportServiceFromGuestDraftLogisticRequest 0 ?S 2"
  let ?R = "RemoveServiceFromLogisticRequest ?S 1 2"
  have g: "ensureGuestDraftLogisticRequest 0 ?S ''guest'' = (Inr 1, ?S)"
    by (simp add: ensureGuestDraftLogisticRequest_def line_eval example_store_eval)
  have f: "find (has_key 1 2) (logistic_request_services ?S) = Some (example_line 1 2 3)"
    by (simp add: line_eval example_store_eval)
  have q: "Quantity (example_line 1 2 3) > 1" by (simp add: example_line_def)
  have q': "example_line 1 2 3\<lparr>Quantity := Quantity (example_line 1 2 3) - 1\<rparr> = example_line 1 2 2"
    by (simp add: example_line_def)
  have "fst ?G = Inr ()"
    by (simp add: RemoveTransportServiceFromGuestDraftLogisticRequest_def
        ensureGuestDraftLogisticRequest_def store_eval line_eval example_store_eval)
  then have rg: "?G = (Inr (), snd ?G)" by (metis prod.collapse)
  have "fst ?R = Inr ()"
    by (simp add: RemoveServiceFromLogisticRequest_def store_eval line_eval example_store_eval)
  then have rr: "?R = (Inr (), snd ?R)" by (metis prod.collapse)
  note t = C8_remove_by_path [of 0 ?S 1 ?S 2 "example_line 1 2 3" "snd ?G" 1 ?S "example_line 1 2 3" "snd ?R"]
  from t g f rg q q' have r1: "find (has_key 1 2) (logistic_request_services (snd ?G))
     = Some (example_line 1 2 2)"
    by simp
  from t f rr have r2: "example_line 1 2 3 \<notin> set (logistic_request_services (snd ?R))"
    by blast
  from g f rg q r1 rr r2 show ?thesis by blast
qed

text \<open>
  C8 as stated fails on the authenticated path: a line item of quantity 3 is not
  decremented to 2 but deleted.
\<close>

theorem C8_authenticated_remove_counterexample:
  "find (has_key 1 2) (logistic_request_services (example_store StatusDraft [example_line 1 2 3]))
     = Some (example_line 1 2 3) \<and>
   Quantity (example_line 1 2 3) = 3 \<and>
   fst (RemoveServiceFromLogisticRequest (example_store StatusDraft [example_line 1 2 3]) 1 2)
     = Inr () \<and>
   logistic_request_services
     (snd (RemoveServiceFromLogisticRequest (example_store StatusDraft [example_line 1 2 3]) 1 2))
     = []"
  by (simp add: RemoveServiceFromLogisticRequest_def store_eval line_eval example_store_eval)

text \<open>
  C9. Forming a stored request whose status is not draft returns the "only drafts
  can be formed" error, and completing or rejecting a stored request whose status is
  not formed returns the "only formed requests can be completed" error; in both
  cases the store is returned unchanged.
\<close>

theorem C9_status_preconditions:
  fixes db :: "('a::{zero,ord,plus}) DB"
  shows
  "(find (\<lambda>r. ID r = orderID) (logistic_requests db) = Some order \<and>
      Status order \<noteq> StatusDraft \<longrightarrow>
      FormLogisticRequest db orderID fromCity toCity weight len width height now
        = (Inl OnlyDraftsCanBeFormed, db)) \<and>
   (find (\<lambda>r. ID r = orderID) (logistic_requests db) = Some order \<and>
      Status order \<noteq> StatusFormed \<and> (status = StatusCompleted \<or> status = StatusRejected) \<longrightarrow>
      CompleteLogisticRequest calc db orderID status moderatorID now'
        = (Inl OnlyFormedCanBeCompleted, db))"
  by (auto simp: FormLogisticRequest_def CompleteLogisticRequest_def)

text \<open>The theorem at a formed request that is formed again and at a draft that is
  completed and rejected.\<close>

theorem C9_status_preconditions_witness:
  "find (\<lambda>r. ID r = 1) (logistic_requests (example_store StatusFormed [example_line 1 1 1]))
     = Some (example_request StatusFormed) \<and>
   Status (example_request StatusFormed) \<noteq> StatusDraft \<and>
   FormLogisticRequest (example_store StatusFormed [example_line 1 1 1]) 1
       moskva kazan 100 1 1 1 5
     = (Inl OnlyDraftsCanBeFormed, example_store StatusFormed [example_line 1 1 1]) \<and>
   find (\<lambda>r. ID r = 1) (logistic_requests (example_store StatusDraft [example_line 1 1 1]))
     = Some (example_request StatusDraft) \<and>
   Status (example_request StatusDraft) \<noteq> StatusFormed \<and>
   CompleteLogisticRequest example_calc (example_store StatusDraft [example_line 1 1 1]) 1
       StatusCompleted 9 5
     = (Inl OnlyFormedCanBeCompleted, example_store StatusDraft [example_line 1 1 1]) \<and>
   CompleteLogisticRequest example_calc (example_store StatusDraft [example_line 1 1 1]) 1
       StatusRejected 9 5
     = (Inl OnlyFormedCanBeCompleted, example_store StatusDraft [example_line 1 1 1])"
proof -
  have f1: "find (\<lambda>r. ID r = 1) (logistic_requests (example_store StatusFormed [example_line 1 1 1]))
     = Some (example_request StatusFormed)"
    by (simp add: example_store_eval)
  have s1: "Status (example_request StatusFormed) \<noteq> StatusDraft"
    by (simp add: example_store_eval)
  have f2: "find (\<lambda>r. ID r = 1) (logistic_requests (example_store StatusDraft [example_line 1 1 1]))
     = Some (example_request StatusDraft)"
    by (simp add: example_store_eval)
  have s2: "Status (example_request StatusDraft) \<noteq> StatusFormed"
    by (simp add: example_store_eval)
  note t1 = C9_status_preconditions [of 1 "example_store StatusFormed [example_line 1 1 1]"
      "example_request StatusFormed" moskva kazan 100 1 1 1 5]
  note t2 = C9_status_preconditions [of 1 "example_store StatusDraft [example_line 1 1 1]"
      "example_request StatusDraft" _ _ _ _ _ _ _ StatusCompleted example_calc 9 5]
  note t3 = C9_status_preconditions [of 1 "example_store StatusDraft [example_line 1 1 1]"
      "example_request StatusDraft" _ _ _ _ _ _ _ StatusRejected example_calc 9 5]
  from f1 s1 f2 s2 t1 t2 t3 show ?thesis by simp
qed

text \<open>
  C10. \<open>GetCartIcon\<close> and \<open>ensureGuestDraftLogisticRequest\<close> are get-or-create. Their
  only error is a write the database rejected, never a not-found error. When they
  return an identifier, a draft with that identifier exists for the user (for the
  session) in the resulting store. An existing draft is returned with the store
  unchanged, \<open>GetCartIcon\<close> counting its line items. When there was none, a returned
  identifier is that of the one request appended by the call, with count 0, and a
  database that accepts the write always yields it.
\<close>

theorem C10_get_or_create:
  assumes "GetCartIcon db creatorID = (res, db')"
    and "ensureGuestDraftLogisticRequest systemCreatorID gdb sessionID = (gres, gdb')"
  shows
    "((\<forall>e. res = Inl e \<longrightarrow> e = DbFailure) \<and>
      (\<forall>rid n. res = Inr (rid, n) \<longrightarrow>
         (\<exists>r \<in> set (logistic_requests db'). ID r = rid \<and> is_user_draft creatorID r)) \<and>
      (\<forall>order. find (is_user_draft creatorID) (logistic_requests db) = Some order \<longrightarrow>
         res = Inr (ID order, int (length (Services db (ID order)))) \<and> db' = db) \<and>
      (find (is_user_draft creatorID) (logistic_requests db) = None \<longrightarrow>
         (accepts_all db \<longrightarrow> (\<exists>rid. res = Inr (rid, 0))) \<and>
         (\<forall>rid n. res = Inr (rid, n) \<longrightarrow> n = 0 \<and>
            (\<exists>r. logistic_requests db' = logistic_requests db @ [r] \<and> ID r = rid \<and>
                 is_user_draft creatorID r)))) \<and>
     ((\<forall>e. gres = Inl e \<longrightarrow> e = DbFailure) \<and>
      (\<forall>rid. gres = Inr rid \<longrightarrow>
         (\<exists>r \<in> set (logistic_requests gdb'). ID r = rid \<and> is_guest_draft sessionID r)) \<and>
      (\<forall>order. find (is_guest_draft sessionID) (logistic_requests gdb) = Some order \<longrightarrow>
         gres = Inr (ID order) \<and> gdb' = gdb) \<and>
      (find (is_guest_draft sessionID) (logistic_requests gdb) = None \<longrightarrow>
         (accepts_all gdb \<longrightarrow> (\<exists>rid. gres = Inr rid)) \<and>
         (\<forall>rid. gres = Inr rid \<longrightarrow>
            (\<exists>r. logistic_requests gdb' = logistic_requests gdb @ [r] \<and> ID r = rid \<and>
                 is_guest_draft sessionID r))))"
  using GetCartIcon_cases [OF assms(1)] ensureGuest_cases [OF assms(2)] by (rule conjI)

text \<open>The theorem at a store without requests, and at a store where user 7 has a
  draft with one line item.\<close>

theorem C10_get_or_create_witness:
  "find (is_user_draft 7) (logistic_requests example_db) = None \<and>
   accepts_all example_db \<and>
   (\<exists>rid r. fst (GetCartIcon example_db 7) = Inr (rid, 0) \<and>
      logistic_requests (snd (GetCartIcon example_db 7)) = logistic_requests example_db @ [r] \<and>
      ID r = rid \<and> is_user_draft 7 r) \<and>
   find (is_guest_draft ''guest'') (logistic_requests example_db) = None \<and>
   (\<exists>rid r. fst (ensureGuestDraftLogisticRequest 0 example_db ''guest'') = Inr rid \<and>
      logistic_requests (snd (ensureGuestDraftLogisticRequest 0 example_db ''guest''))
        = logistic_requests example_db @ [r] \<and>
      ID r = rid \<and> is_guest_draft ''guest'' r) \<and>
   find (is_user_draft 7) (logistic_requests (example_store StatusDraft [example_line 1 2 3]))
     = Some (example_request StatusDraft) \<and>
   GetCartIcon (example_store StatusDraft [example_line 1 2 3]) 7
     = (Inr (1, 1), example_store StatusDraft [example_line 1 2 3])"
proof -
  let ?C = "GetCartIcon example_db 7"
  let ?G = "ensureGuestDraftLogisticRequest 0 example_db ''guest''"
  let ?S = "example_store StatusDraft [example_line 1 2 3]"
  have n1: "find (is_user_draft 7) (logistic_requests example_db) = None"
    by (simp add: example_db_def)
  have n2: "find (is_guest_draft ''guest'') (logistic_requests example_db) = None"
    by (simp add: example_db_def)
  have acc: "accepts_all example_db" by (simp add: accepts_all_def example_db_def)
  have s: "find (is_user_draft 7) (logistic_requests ?S) = Some (example_request StatusDraft)"
    by (simp add: line_eval example_store_eval)
  have i: "ID (example_request StatusDraft) = 1" "int (length (Services ?S 1)) = 1"
    by (simp_all add: line_eval example_store_eval)
  have hc: "?C = (fst ?C, snd ?C)" and hg: "?G = (fst ?G, snd ?G)"
    and hs: "GetCartIcon ?S 7 = (fst (GetCartIcon ?S 7), snd (GetCartIcon ?S 7))"
    by simp_all
  note t1 = C10_get_or_create [OF hc hg]
  note t2 = C10_get_or_create [OF hs hg]
  from t1 n1 acc have r1: "\<exists>rid r. fst ?C = Inr (rid, 0) \<and>
      logistic_requests (snd ?C) = logistic_requests example_db @ [r] \<and>
      ID r = rid \<and> is_user_draft 7 r"
    by blast
  from t1 n2 acc have r2: "\<exists>rid r. fst ?G = Inr rid \<and>
      logistic_requests (snd ?G) = logistic_requests example_db @ [r] \<and>
      ID r = rid \<and> is_guest_draft ''guest'' r"
    by blast
  from t2 s i have "fst (GetCartIcon ?S 7) = Inr (1, 1) \<and> snd (GetCartIcon ?S 7) = ?S"
    by simp
  then have r3: "GetCartIcon ?S 7 = (Inr (1, 1), ?S)" by (metis prod.collapse)
  from n1 acc r1 n2 r2 s r3 show ?thesis by blast
qed

end
